theory Spec2Isabelle
  imports Complex_Main "HOL-Library.Monad_Syntax"
begin

section \<open>The host's Date object\<close>

text \<open>
  The timeline components are TypeScript over the ECMAScript \<^verbatim>\<open>Date\<close> object. A
  \<^verbatim>\<open>Date\<close> holds a time value: an integral number of milliseconds since the epoch, or
  NaN (an "Invalid Date"). The model writes the time value as \<open>int option\<close>, with
  \<open>None\<close> for NaN, and follows the abstract operations of ECMA-262 (section "Date
  Objects") by name. Numbers that reach the drawing surface are \<open>real option\<close>, again
  with \<open>None\<close> for NaN.

  The host computes these numbers in binary64, rounding the result of every operation;
  the model computes them exactly. The two agree wherever the operands and the result
  are whole numbers below \<open>2^53\<close> in size: time values and their differences, month
  counts, and the products and sums of these with a whole number of pixels per month.
  Elsewhere the number of the code is the number of the model up to the rounding of each
  operation. The statements on the scale are chosen accordingly: evaluations at concrete
  inputs, the expressions that the code computes written out, orders between a number
  and a constant that no rounding reverses, and equalities and orders between whole
  numbers; none of them rests on an order or an equality between two rounded sums.

  Local time is UTC plus a fixed offset \<open>tz\<close> in milliseconds, a parameter of every
  operation that reads or builds local calendar fields (daylight saving changes of the
  offset are outside the model).
\<close>

type_synonym js_date = "int option"
type_synonym js_num = "real option"

definition msPerDay :: int where
  "msPerDay = 86400000"

definition Day :: "int \<Rightarrow> int" where
  "Day t = t div msPerDay"

definition TimeWithinDay :: "int \<Rightarrow> int" where
  "TimeWithinDay t = t mod msPerDay"

definition DaysInYear :: "int \<Rightarrow> int" where
  "DaysInYear y =
     (if y mod 4 \<noteq> 0 then 365
      else if y mod 100 \<noteq> 0 then 366
      else if y mod 400 \<noteq> 0 then 365
      else 366)"

definition DayFromYear :: "int \<Rightarrow> int" where
  "DayFromYear y =
     365 * (y - 1970) + (y - 1969) div 4 - (y - 1901) div 100 + (y - 1601) div 400"

text \<open>
  ECMA-262 defines \<open>YearFromTime t\<close> as the largest year \<open>y\<close> with
  \<open>TimeFromYear y \<le> t\<close>. \<open>YearFromDay\<close> computes it: the mean Gregorian year has
  146097 / 400 days, which places the year within one of the estimate; the two
  comparisons settle it. Lemma \<open>YearFromDay_unique\<close> below shows that this is the year
  of the standard's definition.
\<close>

definition YearFromDay :: "int \<Rightarrow> int" where
  "YearFromDay d =
     (let y = 1970 + (400 * d) div 146097 in
      if d < DayFromYear y then y - 1
      else if DayFromYear (y + 1) \<le> d then y + 1
      else y)"

definition YearFromTime :: "int \<Rightarrow> int" where
  "YearFromTime t = YearFromDay (Day t)"

definition InLeapYear :: "int \<Rightarrow> int" where
  "InLeapYear t = (if DaysInYear (YearFromTime t) = 366 then 1 else 0)"

definition DayWithinYear :: "int \<Rightarrow> int" where
  "DayWithinYear t = Day t - DayFromYear (YearFromTime t)"

definition MonthFromTime :: "int \<Rightarrow> int" where
  "MonthFromTime t =
     (let d = DayWithinYear t; l = InLeapYear t in
      if d < 31 then 0
      else if d < 59 + l then 1
      else if d < 90 + l then 2
      else if d < 120 + l then 3
      else if d < 151 + l then 4
      else if d < 181 + l then 5
      else if d < 212 + l then 6
      else if d < 243 + l then 7
      else if d < 273 + l then 8
      else if d < 304 + l then 9
      else if d < 334 + l then 10
      else 11)"

text \<open>
  The day within the year on which month \<open>m\<close> (0 to 11) starts, \<open>l\<close> being 1 in a
  leap year: the lower bounds of the table of \<open>MonthFromTime\<close>.
\<close>

definition DaysBeforeMonth :: "int \<Rightarrow> int \<Rightarrow> int" where
  "DaysBeforeMonth m l =
     (if m = 0 then 0
      else if m = 1 then 31
      else if m = 2 then 59 + l
      else if m = 3 then 90 + l
      else if m = 4 then 120 + l
      else if m = 5 then 151 + l
      else if m = 6 then 181 + l
      else if m = 7 then 212 + l
      else if m = 8 then 243 + l
      else if m = 9 then 273 + l
      else if m = 10 then 304 + l
      else 334 + l)"

definition DateFromTime :: "int \<Rightarrow> int" where
  "DateFromTime t =
     DayWithinYear t - DaysBeforeMonth (MonthFromTime t) (InLeapYear t) + 1"

text \<open>
  \<open>MakeDay\<close>: the day number of the first of month \<open>month mod 12\<close> of year
  \<open>year + month div 12\<close>, plus \<open>date - 1\<close>. Months and dates out of their
  calendar range roll over into the neighbouring years and months.
\<close>

definition MakeDay :: "int \<Rightarrow> int \<Rightarrow> int \<Rightarrow> int" where
  "MakeDay year month date =
     (let ym = year + month div 12; mn = month mod 12 in
      DayFromYear ym + DaysBeforeMonth mn (if DaysInYear ym = 366 then 1 else 0) + date - 1)"

definition MakeTime :: "int \<Rightarrow> int \<Rightarrow> int \<Rightarrow> int \<Rightarrow> int" where
  "MakeTime hour minute sec ms = hour * 3600000 + minute * 60000 + sec * 1000 + ms"

definition MakeDate :: "int \<Rightarrow> int \<Rightarrow> int" where
  "MakeDate day time = day * msPerDay + time"

definition TimeClip :: "int \<Rightarrow> js_date" where
  "TimeClip t = (if \<bar>t\<bar> > 8640000000000000 then None else Some t)"

definition LocalTime :: "int \<Rightarrow> int \<Rightarrow> int" where
  "LocalTime tz t = t + tz"

definition UTC :: "int \<Rightarrow> int \<Rightarrow> int" where
  "UTC tz t = t - tz"

text \<open>
  \<^verbatim>\<open>new Date(year, month, date, hours, minutes, seconds, ms)\<close>. The year and the
  month come from \<^verbatim>\<open>getFullYear\<close> and \<^verbatim>\<open>getMonth\<close> in this program, so they can be
  NaN; the other arguments are literals. The constructor passes the year through
  \<open>MakeFullYear\<close>: a year from 0 to 99 stands for 1900 + year.
\<close>

definition MakeFullYear :: "int \<Rightarrow> int" where
  "MakeFullYear year = (if 0 \<le> year \<and> year \<le> 99 then 1900 + year else year)"

definition Date_fields :: "int \<Rightarrow> int option \<Rightarrow> int option \<Rightarrow> int \<Rightarrow> int \<Rightarrow> int \<Rightarrow> int \<Rightarrow> int \<Rightarrow> js_date" where
  "Date_fields tz year month date hours minutes seconds ms =
     do {
       y \<leftarrow> year;
       m \<leftarrow> month;
       let yr = MakeFullYear y;
       TimeClip (UTC tz (MakeDate (MakeDay yr m date) (MakeTime hours minutes seconds ms)))
     }"

definition getFullYear :: "int \<Rightarrow> js_date \<Rightarrow> int option" where
  "getFullYear tz d = map_option (\<lambda>t. YearFromTime (LocalTime tz t)) d"

definition getMonth :: "int \<Rightarrow> js_date \<Rightarrow> int option" where
  "getMonth tz d = map_option (\<lambda>t. MonthFromTime (LocalTime tz t)) d"

definition setMonth :: "int \<Rightarrow> js_date \<Rightarrow> int option \<Rightarrow> js_date" where
  "setMonth tz d month =
     do {
       t \<leftarrow> d;
       m \<leftarrow> month;
       let lt = LocalTime tz t;
       TimeClip (UTC tz (MakeDate (MakeDay (YearFromTime lt) m (DateFromTime lt)) (TimeWithinDay lt)))
     }"

text \<open>
  \<^verbatim>\<open>Number(d)\<close> of a Date is its time value; \<^verbatim>\<open>Math.min\<close> and \<^verbatim>\<open>Math.max\<close> work on
  numbers that may be NaN or infinite (with no argument they return \<open>+\<infinity>\<close> and
  \<open>-\<infinity>\<close>); \<^verbatim>\<open>new Date(n)\<close> of a number is \<open>TimeClip n\<close>, NaN for a number that
  is not finite.
\<close>

datatype number = NaN | MinusInfinity | Finite int | Infinity

definition Number :: "js_date \<Rightarrow> number" where
  "Number d = (case d of None \<Rightarrow> NaN | Some t \<Rightarrow> Finite t)"

fun min2 :: "number \<Rightarrow> number \<Rightarrow> number" where
  "min2 NaN b = NaN"
| "min2 a NaN = NaN"
| "min2 MinusInfinity b = MinusInfinity"
| "min2 a MinusInfinity = MinusInfinity"
| "min2 Infinity b = b"
| "min2 a Infinity = a"
| "min2 (Finite a) (Finite b) = Finite (min a b)"

fun max2 :: "number \<Rightarrow> number \<Rightarrow> number" where
  "max2 NaN b = NaN"
| "max2 a NaN = NaN"
| "max2 Infinity b = Infinity"
| "max2 a Infinity = Infinity"
| "max2 MinusInfinity b = b"
| "max2 a MinusInfinity = a"
| "max2 (Finite a) (Finite b) = Finite (max a b)"

definition Math_min :: "number list \<Rightarrow> number" where
  "Math_min xs = foldr min2 xs Infinity"

definition Math_max :: "number list \<Rightarrow> number" where
  "Math_max xs = foldr max2 xs MinusInfinity"

definition Date_number :: "number \<Rightarrow> js_date" where
  "Date_number n = (case n of Finite t \<Rightarrow> TimeClip t | _ \<Rightarrow> None)"

text \<open>
  \<^verbatim>\<open>Math.max(2, v)\<close> on a finite number or NaN, and the quotient of two finite
  numbers: a zero divisor gives NaN or an infinity in ECMAScript, neither of them a
  finite number, and \<open>None\<close> here (lemma \<open>x_value\<close> shows that the scale never divides
  by zero).
\<close>

definition Math_max2 :: "real \<Rightarrow> js_num \<Rightarrow> js_num" where
  "Math_max2 a v = map_option (max a) v"

definition js_div :: "real \<Rightarrow> real \<Rightarrow> js_num" where
  "js_div a b = (if b = 0 then None else Some (a / b))"

section \<open>Date arithmetic of the components\<close>

text \<open>
  The three source files (\<^verbatim>\<open>src/components/Timeline.tsx\<close>, the component stored after
  the Tailwind configuration in \<^verbatim>\<open>tailwind.config.js\<close>, and \<^verbatim>\<open>unnamed/part_000\<close>) each
  declare the same seven helper functions, word for word. A date of the input is a
  string or a Date; \<^verbatim>\<open>new Date(string)\<close> is the host's parser, the parameter \<open>parse\<close>.
\<close>

datatype date_in = Str string | Obj js_date

definition toDate :: "(string \<Rightarrow> js_date) \<Rightarrow> date_in \<Rightarrow> js_date" where
  "toDate parse d = (case d of Obj t \<Rightarrow> t | Str s \<Rightarrow> parse s)"

definition monthDiff :: "int \<Rightarrow> js_date \<Rightarrow> js_date \<Rightarrow> int option" where
  "monthDiff tz a b =
     do {
       yb \<leftarrow> getFullYear tz b;
       ya \<leftarrow> getFullYear tz a;
       mb \<leftarrow> getMonth tz b;
       ma \<leftarrow> getMonth tz a;
       Some ((yb - ya) * 12 + (mb - ma))
     }"

definition addMonths :: "int \<Rightarrow> js_date \<Rightarrow> int \<Rightarrow> js_date" where
  "addMonths tz d m = setMonth tz d (map_option (\<lambda>k. k + m) (getMonth tz d))"

definition startOfMonth :: "int \<Rightarrow> js_date \<Rightarrow> js_date" where
  "startOfMonth tz d = Date_fields tz (getFullYear tz d) (getMonth tz d) 1 0 0 0 0"

definition startOfYear :: "int \<Rightarrow> js_date \<Rightarrow> js_date" where
  "startOfYear tz d = Date_fields tz (getFullYear tz d) (Some 0) 1 0 0 0 0"

definition endOfYear :: "int \<Rightarrow> js_date \<Rightarrow> js_date" where
  "endOfYear tz d = Date_fields tz (getFullYear tz d) (Some 11) 31 23 59 59 999"

function yearsLoop :: "int \<Rightarrow> int \<Rightarrow> int list" where
  "yearsLoop y ymax = (if y \<le> ymax then y # yearsLoop (y + 1) ymax else [])"
  by pat_completeness auto
termination
  by (relation "measure (\<lambda>(y, ymax). nat (ymax + 1 - y))") auto

declare yearsLoop.simps [simp del]

definition yearsBetween :: "int \<Rightarrow> js_date \<Rightarrow> js_date \<Rightarrow> int list" where
  "yearsBetween tz dmin dmax =
     (case (getFullYear tz dmin, getFullYear tz dmax) of
        (Some y, Some ymax) \<Rightarrow> yearsLoop y ymax
      | _ \<Rightarrow> [])"

text \<open>
  The scale \<^verbatim>\<open>x\<close>, a closure over the domain's \<^verbatim>\<open>min\<close> and the pixels per month inside
  each \<^verbatim>\<open>SvgTimeline\<close>: whole months from the month of \<open>dmin\<close>, plus the fraction of
  the month of \<open>d\<close> that has passed. The quotient, the two products and the sum are exact
  here and rounded to binary64 in the code.
\<close>

definition x :: "int \<Rightarrow> js_date \<Rightarrow> real \<Rightarrow> js_date \<Rightarrow> js_num" where
  "x tz dmin pxPerMonth d =
     do {
       m \<leftarrow> monthDiff tz (startOfMonth tz dmin) (startOfMonth tz d);
       let monthStart = startOfMonth tz d;
       let nextMonth = addMonths tz monthStart 1;
       t \<leftarrow> d;
       t0 \<leftarrow> monthStart;
       t1 \<leftarrow> nextMonth;
       frac \<leftarrow> js_div (real_of_int (t - t0)) (real_of_int (t1 - t0));
       Some (real_of_int m * pxPerMonth + frac * pxPerMonth)
     }"

section \<open>Items, lanes and the domain\<close>

text \<open>
  \<open>TimelineItem\<close> carries the fields of the three declarations of that type:
  \<^verbatim>\<open>Timeline.tsx\<close> has \<^verbatim>\<open>id\<close>, \<^verbatim>\<open>title\<close>, \<^verbatim>\<open>start\<close>, an optional \<^verbatim>\<open>end\<close> and \<^verbatim>\<open>lane\<close>; the
  other two have \<^verbatim>\<open>title\<close>, \<^verbatim>\<open>start\<close>, \<^verbatim>\<open>end\<close> and an optional \<^verbatim>\<open>rail\<close> (and, with rails
  drawn, \<^verbatim>\<open>color\<close> and \<^verbatim>\<open>invert\<close>). A field that an object does not have is \<open>None\<close>
  (\<^verbatim>\<open>undefined\<close>). \<open>LaneData\<close> likewise: \<^verbatim>\<open>lane\<close> (here \<open>laneName\<close>), \<^verbatim>\<open>items\<close>, and
  \<^verbatim>\<open>rails\<close> in one file, \<^verbatim>\<open>height\<close> and \<^verbatim>\<open>yTop\<close> in the other. \<^verbatim>\<open>TimelineData\<close> is a
  \<^verbatim>\<open>Record<string, LaneData>\<close>; \<^verbatim>\<open>Object.values\<close> lists its lanes in insertion order.
\<close>

record TimelineItem =
  item_id :: string
  title :: string
  start :: date_in
  end' :: "date_in option"
  lane :: string
  rail :: "nat option"
  color :: string
  invert :: "bool option"

record LaneData =
  laneName :: string
  rails :: nat
  items :: "TimelineItem list"
  height :: real
  yTop :: real

type_synonym TimelineData = "(string \<times> LaneData) list"

definition Object_values :: "TimelineData \<Rightarrow> LaneData list" where
  "Object_values data = map snd data"

record domain =
  dom_min :: js_date
  dom_max :: js_date

text \<open>
  \<^verbatim>\<open>it.end ? ... : ...\<close> tests the field for truthiness: \<^verbatim>\<open>undefined\<close> and the empty
  string are falsy, every Date object is truthy.
\<close>

definition truthy :: "date_in option \<Rightarrow> bool" where
  "truthy e = (case e of None \<Rightarrow> False | Some (Str s) \<Rightarrow> s \<noteq> [] | Some (Obj t) \<Rightarrow> True)"

text \<open>
  \<^verbatim>\<open>toDate(end)\<close> where the field may be missing: \<^verbatim>\<open>new Date(undefined)\<close> is an
  Invalid Date.
\<close>

definition toDate_opt :: "(string \<Rightarrow> js_date) \<Rightarrow> date_in option \<Rightarrow> js_date" where
  "toDate_opt parse e = (case e of None \<Rightarrow> None | Some d \<Rightarrow> toDate parse d)"

definition resolve :: "int \<Rightarrow> js_date list \<Rightarrow> int \<Rightarrow> domain" where
  "resolve tz dates padMonths =
     (let dmin = Date_number (Math_min (map Number dates));
          dmax = Date_number (Math_max (map Number dates));
          minP = addMonths tz (startOfYear tz dmin) (- padMonths);
          maxP = addMonths tz (endOfYear tz dmax) padMonths
      in \<lparr>dom_min = minP, dom_max = maxP\<rparr>)"

text \<open>\<^verbatim>\<open>domainFromData\<close> of \<^verbatim>\<open>Timeline.tsx\<close>, over a flat list of items.\<close>

definition itemDates :: "(string \<Rightarrow> js_date) \<Rightarrow> TimelineItem \<Rightarrow> js_date list" where
  "itemDates parse i =
     [toDate parse (start i),
      if truthy (end' i) then toDate_opt parse (end' i) else toDate parse (start i)]"

definition domainFromData :: "(string \<Rightarrow> js_date) \<Rightarrow> int \<Rightarrow> TimelineItem list \<Rightarrow> int \<Rightarrow> domain" where
  "domainFromData parse tz data padMonths =
     resolve tz (concat (map (itemDates parse) data)) padMonths"

text \<open>
  \<^verbatim>\<open>domainFromData\<close> of the other two files, over the lanes of a \<^verbatim>\<open>TimelineData\<close>:
  every item contributes \<^verbatim>\<open>toDate(start)\<close> and \<^verbatim>\<open>toDate(end)\<close>.
\<close>

definition laneItemDates :: "(string \<Rightarrow> js_date) \<Rightarrow> TimelineItem \<Rightarrow> js_date list" where
  "laneItemDates parse i = [toDate parse (start i), toDate_opt parse (end' i)]"

definition domainFromLanes :: "(string \<Rightarrow> js_date) \<Rightarrow> int \<Rightarrow> TimelineData \<Rightarrow> int \<Rightarrow> domain" where
  "domainFromLanes parse tz data padMonths =
     resolve tz
       (concat (map (\<lambda>l. concat (map (laneItemDates parse) (items l))) (Object_values data)))
       padMonths"

section \<open>The components\<close>

text \<open>
  What a component draws, as far as the layout goes: the year ticks of the ruler (the
  year and the horizontal translation of its group), and per lane a group translated
  down by the lane's top, holding one group per item with a circle or a rectangle. Text
  labels, colours and the backgrounds are left out. An attribute is \<open>js_num\<close> where the
  code computes it from dates, a plain number where it is a constant of the code.
\<close>

datatype shape =
  Circle real real real
| Rect js_num real js_num real

record item_group =
  translate_x :: js_num
  translate_y :: real
  shape :: shape

record lane_group =
  lane_top :: real
  item_groups :: "item_group list"

record drawing =
  ticks :: "(int \<times> js_num) list"
  lane_groups :: "lane_group list"
  innerWidth :: js_num
  canvas_height :: real

text \<open>
  \<^verbatim>\<open>a - b\<close> and \<^verbatim>\<open>a + b\<close> on numbers that may be NaN: exact here, rounded to binary64 in
  the code.
\<close>

definition js_sub :: "js_num \<Rightarrow> js_num \<Rightarrow> js_num" where
  "js_sub a b = do { u \<leftarrow> a; v \<leftarrow> b; Some (u - v) }"

definition js_add :: "js_num \<Rightarrow> js_num \<Rightarrow> js_num" where
  "js_add a b = do { u \<leftarrow> a; v \<leftarrow> b; Some (u + v) }"

definition totalMonths :: "int \<Rightarrow> domain \<Rightarrow> js_num" where
  "totalMonths tz dm =
     Math_max2 1
       (map_option (\<lambda>m. real_of_int (m + 1))
          (monthDiff tz (startOfMonth tz (dom_min dm)) (startOfMonth tz (dom_max dm))))"

text \<open>
  \<^verbatim>\<open>const e = it.end ? toDate(it.end) : undefined\<close>: \<open>None\<close> is \<^verbatim>\<open>undefined\<close>, and
  \<open>Some d\<close> a Date object, valid or not.
\<close>

definition endDate :: "(string \<Rightarrow> js_date) \<Rightarrow> TimelineItem \<Rightarrow> js_date option" where
  "endDate parse it = (if truthy (end' it) then Some (toDate_opt parse (end' it)) else None)"

subsection \<open>\<^verbatim>\<open>src/components/Timeline.tsx\<close>\<close>

definition DEFAULTS_laneHeight :: real where "DEFAULTS_laneHeight = 64"
definition DEFAULTS_laneGap :: real where "DEFAULTS_laneGap = 12"
definition DEFAULTS_pxPerMonth :: real where "DEFAULTS_pxPerMonth = 20"
definition DEFAULTS_padMonths :: int where "DEFAULTS_padMonths = 1"

definition itemGroup :: "(string \<Rightarrow> js_date) \<Rightarrow> int \<Rightarrow> js_date \<Rightarrow> real \<Rightarrow> real \<Rightarrow> TimelineItem \<Rightarrow> item_group" where
  "itemGroup parse tz dmin pxPerMonth laneHeight it =
     (let s = toDate parse (start it);
          e = endDate parse it;
          xStart = x tz dmin pxPerMonth s;
          xEnd = (case e of Some ed \<Rightarrow> x tz dmin pxPerMonth ed | None \<Rightarrow> x tz dmin pxPerMonth s);
          cy = laneHeight / 2
      in case e of
           None \<Rightarrow> \<lparr>translate_x = xStart, translate_y = 0, shape = Circle 0 cy 6\<rparr>
         | Some ed \<Rightarrow>
             (let w = Math_max2 2 (js_sub xEnd xStart)
              in \<lparr>translate_x = Some 100, translate_y = 0, shape = Rect xStart (cy - 10) w 20\<rparr>))"

definition SvgTimeline ::
  "(string \<Rightarrow> js_date) \<Rightarrow> int \<Rightarrow> TimelineItem list \<Rightarrow> string list \<Rightarrow> real \<Rightarrow> real \<Rightarrow> real \<Rightarrow> int \<Rightarrow> drawing" where
  "SvgTimeline parse tz data lanes laneHeight laneGap pxPerMonth padMonths =
     (let dm = domainFromData parse tz data padMonths;
          yearTicks = yearsBetween tz (dom_min dm) (dom_max dm)
      in \<lparr>ticks =
            map (\<lambda>y. (y, js_add (x tz (dom_min dm) pxPerMonth (Date_fields tz (Some y) (Some 0) 1 0 0 0 0)) (Some 100)))
              yearTicks,
          lane_groups =
            map (\<lambda>(idx, l).
                   \<lparr>lane_top = 40 + real idx * (laneHeight + laneGap),
                    item_groups =
                      map (itemGroup parse tz (dom_min dm) pxPerMonth laneHeight)
                        (filter (\<lambda>d. lane d = l) data)\<rparr>)
              (enumerate 0 lanes),
          innerWidth = Math_max2 800 (map_option (\<lambda>m. m * pxPerMonth) (totalMonths tz dm)),
          canvas_height = real (length lanes) * (laneHeight + laneGap) + 60\<rparr>)"

subsection \<open>The component with rails (after the configuration in \<^verbatim>\<open>tailwind.config.js\<close>)\<close>

definition PX_PER_MONTH :: real where "PX_PER_MONTH = 14"
definition LANE_HEIGHT :: real where "LANE_HEIGHT = 60"
definition LANE_GAP :: real where "LANE_GAP = 5"
definition PAD_MONTHS :: int where "PAD_MONTHS = 0"
definition RULER_HEIGHT :: real where "RULER_HEIGHT = 40"
definition RAIL_OFFSET :: real where "RAIL_OFFSET = 25"

definition railItemGroup :: "(string \<Rightarrow> js_date) \<Rightarrow> int \<Rightarrow> js_date \<Rightarrow> TimelineItem \<Rightarrow> item_group" where
  "railItemGroup parse tz dmin it =
     (let s = toDate parse (start it);
          e = endDate parse it;
          xStart = x tz dmin PX_PER_MONTH s;
          xEnd = (case e of Some ed \<Rightarrow> x tz dmin PX_PER_MONTH ed | None \<Rightarrow> x tz dmin PX_PER_MONTH s);
          cy = (if rail it = Some 1 then LANE_HEIGHT + RAIL_OFFSET else LANE_HEIGHT / 2);
          w = Math_max2 2 (js_sub xEnd xStart)
      in \<lparr>translate_x = Some 0, translate_y = 0, shape = Rect xStart (cy - 20) w 40\<rparr>)"

text \<open>
  The canvas height of this file reads \<^verbatim>\<open>data.work.height\<close>, \<^verbatim>\<open>data.school.height\<close> and
  \<^verbatim>\<open>data.volunteering.height\<close>; a record without one of the three keys makes the component
  throw, which is \<open>None\<close>.
\<close>

definition railsHeight :: "TimelineData \<Rightarrow> real option" where
  "railsHeight data =
     do {
       w \<leftarrow> map_of data ''work'';
       s \<leftarrow> map_of data ''school'';
       v \<leftarrow> map_of data ''volunteering'';
       Some (RULER_HEIGHT + height w + height s + height v)
     }"

definition SvgTimeline_rails :: "(string \<Rightarrow> js_date) \<Rightarrow> int \<Rightarrow> TimelineData \<Rightarrow> drawing option" where
  "SvgTimeline_rails parse tz data =
     do {
       h \<leftarrow> railsHeight data;
       let dm = domainFromLanes parse tz data PAD_MONTHS;
       let yearTicks = yearsBetween tz (dom_min dm) (dom_max dm);
       Some \<lparr>ticks =
               map (\<lambda>y. (y, x tz (dom_min dm) PX_PER_MONTH (Date_fields tz (Some y) (Some 0) 1 0 0 0 0)))
                 yearTicks,
             lane_groups =
               map (\<lambda>l. \<lparr>lane_top = yTop l,
                         item_groups = map (railItemGroup parse tz (dom_min dm)) (items l)\<rparr>)
                 (Object_values data),
             innerWidth = Math_max2 800 (map_option (\<lambda>m. m * PX_PER_MONTH) (totalMonths tz dm)),
             canvas_height = h\<rparr>
     }"

subsection \<open>\<^verbatim>\<open>src/unnamed/part_000\<close>\<close>

definition NUM_LANES :: real where "NUM_LANES = 3"
definition PAD_MONTHS_part :: int where "PAD_MONTHS_part = 5"

definition partItemGroup :: "(string \<Rightarrow> js_date) \<Rightarrow> int \<Rightarrow> js_date \<Rightarrow> TimelineItem \<Rightarrow> item_group" where
  "partItemGroup parse tz dmin it =
     (let s = toDate parse (start it);
          e = endDate parse it;
          xStart = x tz dmin PX_PER_MONTH s;
          xEnd = (case e of Some ed \<Rightarrow> x tz dmin PX_PER_MONTH ed | None \<Rightarrow> x tz dmin PX_PER_MONTH s);
          cy = LANE_HEIGHT / 2;
          w = Math_max2 2 (js_sub xEnd xStart)
      in \<lparr>translate_x = Some 100, translate_y = 0, shape = Rect xStart (cy - 20) w 40\<rparr>)"

definition SvgTimeline_part :: "(string \<Rightarrow> js_date) \<Rightarrow> int \<Rightarrow> TimelineData \<Rightarrow> drawing" where
  "SvgTimeline_part parse tz data =
     (let dm = domainFromLanes parse tz data PAD_MONTHS_part;
          yearTicks = yearsBetween tz (dom_min dm) (dom_max dm)
      in \<lparr>ticks =
            map (\<lambda>y. (y, js_add (x tz (dom_min dm) PX_PER_MONTH (Date_fields tz (Some y) (Some 0) 1 0 0 0 0)) (Some 100)))
              yearTicks,
          lane_groups =
            map (\<lambda>(idx, l).
                   \<lparr>lane_top = 40 + real idx * (LANE_HEIGHT + LANE_GAP),
                    item_groups = map (partItemGroup parse tz (dom_min dm)) (items l)\<rparr>)
              (enumerate 0 (Object_values data)),
          innerWidth = Math_max2 800 (map_option (\<lambda>m. m * PX_PER_MONTH) (totalMonths tz dm)),
          canvas_height = NUM_LANES * (LANE_HEIGHT + LANE_GAP) + 60\<rparr>)"

subsection \<open>The shipped data of the component with rails\<close>

text \<open>
  The dates of the shipped data are strings of the form YYYY-MM-DD. \<open>parseDateOnly\<close>
  is the date-only form of the ECMAScript date-time string format: midnight UTC of that
  day. Modelled from ECMA-262, and only for this form: it stands for the host's parser
  in the evaluations of the shipped data and of concrete inputs below, while the
  theorems hold for every parser.
\<close>

definition digit :: "char \<Rightarrow> int option" where
  "digit c =
     (let n = (of_char c :: nat) in
      if 48 \<le> n \<and> n \<le> 57 then Some (int n - 48) else None)"

definition parseDateOnly :: "string \<Rightarrow> js_date" where
  "parseDateOnly s =
     (case s of
        [y1, y2, y3, y4, h1, m1, m2, h2, d1, d2] \<Rightarrow>
          if h1 = CHR ''-'' \<and> h2 = CHR ''-'' then
            do {
              a \<leftarrow> digit y1; b \<leftarrow> digit y2; c \<leftarrow> digit y3; d \<leftarrow> digit y4;
              e \<leftarrow> digit m1; f \<leftarrow> digit m2;
              g \<leftarrow> digit d1; h \<leftarrow> digit d2;
              let yr = 1000 * a + 100 * b + 10 * c + d;
              let mo = 10 * e + f;
              let dt = 10 * g + h;
              if 1 \<le> mo \<and> mo \<le> 12 \<and> 1 \<le> dt
                 \<and> MakeDay yr (mo - 1) dt < MakeDay yr mo 1
              then TimeClip (MakeDate (MakeDay yr (mo - 1) dt) 0)
              else None
            }
          else None
      | _ \<Rightarrow> None)"

definition mkItem :: "string \<Rightarrow> string \<Rightarrow> string \<Rightarrow> string \<Rightarrow> nat option \<Rightarrow> bool option \<Rightarrow> TimelineItem" where
  "mkItem t s e c r i =
     \<lparr>item_id = [], title = t, start = Str s, end' = Some (Str e), lane = [],
      rail = r, color = c, invert = i\<rparr>"

definition DATA :: TimelineData where
  "DATA =
     [(''work'',
       \<lparr>laneName = ''Work'', rails = 0,
        items =
          [mkItem ''ViLLE'' ''2016-02-01'' ''2016-05-30'' ''#5e96e3'' None None,
           mkItem ''Vincit'' ''2018-04-01'' ''2019-08-30'' ''#d14f35'' None None,
           mkItem ''Identio'' ''2020-05-01'' ''2022-08-30'' ''#07001f'' None None,
           mkItem ''Arado'' ''2022-09-01'' ''2025-04-30'' ''#46d389'' None (Some True),
           mkItem ''Laina DeFi'' ''2024-05-13'' ''2025-12-31'' ''#fff'' (Some 1) (Some True),
           mkItem ''Purtsi Consulting'' ''2025-05-01'' ''2025-12-31'' ''salmon'' None (Some True)],
        height = LANE_HEIGHT * 2,
        yTop = RULER_HEIGHT\<rparr>),
      (''school'',
       \<lparr>laneName = ''School'', rails = 0,
        items = [mkItem ''Turun Yliopisto'' ''2016-09-01'' ''2022-12-20'' ''#004a43'' None None],
        height = LANE_HEIGHT,
        yTop = LANE_HEIGHT * 2 + RULER_HEIGHT\<rparr>),
      (''volunteering'',
       \<lparr>laneName = ''Volunteering'', rails = 0,
        items =
          [mkItem ''Digit ry'' ''2018-01-01'' ''2019-12-31'' ''#000'' None None,
           mkItem ''Turun Wappuradio ry'' ''2018-11-11'' ''2021-12-31'' ''#f65f52'' (Some 1) None],
        height = LANE_HEIGHT * 2,
        yTop = LANE_HEIGHT * 3 + RULER_HEIGHT\<rparr>)]"

section \<open>Months on the time line\<close>

text \<open>
  Three notions for the proofs, none of them in the source: the index of the month of
  a local time (twelve times the year plus the month), the day number on which the
  month of index \<open>k\<close> starts, and its first millisecond.
\<close>

definition monthIndex :: "int \<Rightarrow> int" where
  "monthIndex t = 12 * YearFromTime t + MonthFromTime t"

definition firstDay :: "int \<Rightarrow> int" where
  "firstDay k = MakeDay 0 k 1"

definition firstInstant :: "int \<Rightarrow> int" where
  "firstInstant k = MakeDate (firstDay k) 0"

text \<open>
  The place of a local time on the month axis: the index of its month plus the
  fraction of that month that has passed. The index of the month that the Date
  constructor builds from the year and the month of the month of index \<open>k\<close>. And the
  local times whose year the constructor takes as it is.
\<close>

definition position :: "int \<Rightarrow> real" where
  "position t =
     real_of_int (monthIndex t)
     + real_of_int (t - firstInstant (monthIndex t))
       / real_of_int (firstInstant (monthIndex t + 1) - firstInstant (monthIndex t))"

definition ctorMonth :: "int \<Rightarrow> int" where
  "ctorMonth k = 12 * MakeFullYear (k div 12) + k mod 12"

definition plainYear :: "int \<Rightarrow> int \<Rightarrow> bool" where
  "plainYear tz t = (YearFromTime (LocalTime tz t) < 0 \<or> 99 < YearFromTime (LocalTime tz t))"

definition plainDate :: "int \<Rightarrow> js_date \<Rightarrow> bool" where
  "plainDate tz d = (case d of None \<Rightarrow> False | Some t \<Rightarrow> plainYear tz t)"

section \<open>Inputs of the worked examples\<close>

text \<open>The shipped data of \<^verbatim>\<open>Timeline.tsx\<close>.\<close>

definition mkFlat :: "string \<Rightarrow> string \<Rightarrow> string \<Rightarrow> string option \<Rightarrow> string \<Rightarrow> TimelineItem" where
  "mkFlat i t s e l =
     \<lparr>item_id = i, title = t, start = Str s, end' = map_option Str e, lane = l,
      rail = None, color = [], invert = None\<rparr>"

definition DATA_flat :: "TimelineItem list" where
  "DATA_flat =
     [mkFlat ''a'' ''ViLLE Team'' ''2016-02-01'' (Some ''2016-05-30'') ''Work'',
      mkFlat ''b'' ''Vincit'' ''2018-04-01'' (Some ''2019-08-30'') ''Work'',
      mkFlat ''c'' ''Identio'' ''2020-05-01'' (Some ''2022-08-30'') ''Work'',
      mkFlat ''d'' ''Arado'' ''2022-09-01'' (Some ''2025-04-30'') ''Work'',
      mkFlat ''d'' ''Purtsi Consulting'' ''2025-05-01'' (Some ''2025-11-30'') ''Work'']"

text \<open>The first two items of that data, the second with an end that is no date.\<close>

definition unparseable_items :: "TimelineItem list" where
  "unparseable_items =
     [mkFlat ''a'' ''ViLLE Team'' ''2016-02-01'' (Some ''2016-05-30'') ''Work'',
      mkFlat ''b'' ''Vincit'' ''2018-04-01'' (Some ''present'') ''Work'']"

text \<open>
  Inputs with dates in the first two centuries: one point event in the year 50, and
  one lane with one interval in the year 100.
\<close>

definition year50_items :: "TimelineItem list" where
  "year50_items = [mkFlat ''a'' ''Aqueduct'' ''0050-06-15'' None ''Work'']"


definition year100_lanes :: TimelineData where
  "year100_lanes =
     [(''work'',
       \<lparr>laneName = ''Work'', rails = 1,
        items = [mkItem ''Forum'' ''0100-03-01'' ''0100-12-31'' ''#000'' None None],
        height = LANE_HEIGHT, yTop = RULER_HEIGHT\<rparr>)]"

text \<open>
  An interval whose end precedes its start, in the year before; and a point event whose
  \<^verbatim>\<open>end\<close> is the empty string.
\<close>

definition inverted_item :: TimelineItem where
  "inverted_item = mkFlat ''a'' ''Thesis'' ''2016-05-30'' (Some ''2015-02-01'') ''Work''"

definition blank_end_item :: TimelineItem where
  "blank_end_item = mkFlat ''a'' ''Launch'' ''2016-05-30'' (Some []) ''Work''"

text \<open>Three lanes with rails that all give the ruler's height as their top.\<close>

definition flat_lanes :: TimelineData where
  "flat_lanes =
     [(''work'', \<lparr>laneName = ''Work'', rails = 1, items = [], height = LANE_HEIGHT * 2, yTop = RULER_HEIGHT\<rparr>),
      (''school'', \<lparr>laneName = ''School'', rails = 1, items = [], height = LANE_HEIGHT, yTop = RULER_HEIGHT\<rparr>),
      (''volunteering'', \<lparr>laneName = ''Volunteering'', rails = 1, items = [], height = LANE_HEIGHT, yTop = RULER_HEIGHT\<rparr>)]"

text \<open>The vertical centre of a shape within its group, for the statements on rows.\<close>

definition centerY :: "shape \<Rightarrow> real" where
  "centerY s = (case s of Circle cx cy r \<Rightarrow> cy | Rect rx ry w h \<Rightarrow> ry + h / 2)"


section \<open>Calendar facts\<close>

text \<open>
  The year of a day number is the one ECMA-262 defines, and months tile the time line:
  every local time lies in exactly one month, from its first instant up to the first
  instant of the next.
\<close>

lemma div_step:
  fixes a n :: int
  assumes "0 < n"
  shows "(a + 1) div n = a div n + (if (a + 1) mod n = 0 then 1 else 0)"
proof -
  have r: "0 \<le> a mod n" "a mod n < n" using assms by simp_all
  have e: "a + 1 = (a div n) * n + (a mod n + 1)" by simp
  show ?thesis
  proof (cases "a mod n + 1 < n")
    case True
    then have "(a mod n + 1) div n = 0" "(a mod n + 1) mod n = a mod n + 1"
      using r by simp_all
    then have "(a + 1) div n = a div n" "(a + 1) mod n = a mod n + 1"
      using e assms by (metis add.right_neutral div_mult_self3 less_irrefl, metis mod_mult_self3)
    with r show ?thesis by simp
  next
    case False
    with r have n: "a mod n + 1 = n" by simp
    from e have "a + 1 = (a div n) * n + n" unfolding n .
    then have "a + 1 = (a div n + 1) * n" by (simp add: algebra_simps)
    then have "(a + 1) div n = a div n + 1" "(a + 1) mod n = 0"
      using assms by simp_all
    then show ?thesis by simp
  qed
qed

lemma DayFromYear_Suc: "DayFromYear (y + 1) = DayFromYear y + DaysInYear y"
proof -
  have m4: "(y - 1968) mod 4 = y mod 4"
    using mod_diff_right_eq[of y 1968 4] by simp
  have m100: "(y - 1900) mod 100 = y mod 100"
    using mod_diff_right_eq[of y 1900 100] by simp
  have m400: "(y - 1600) mod 400 = y mod 400"
    using mod_diff_right_eq[of y 1600 400] by simp
  have a: "(y - 1968) div 4 = (y - 1969) div 4 + (if y mod 4 = 0 then 1 else 0)"
    using div_step[of 4 "y - 1969"] m4 by simp
  have b: "(y - 1900) div 100 = (y - 1901) div 100 + (if y mod 100 = 0 then 1 else 0)"
    using div_step[of 100 "y - 1901"] m100 by simp
  have c: "(y - 1600) div 400 = (y - 1601) div 400 + (if y mod 400 = 0 then 1 else 0)"
    using div_step[of 400 "y - 1601"] m400 by simp
  have d1: "y mod 400 = 0 \<Longrightarrow> y mod 100 = 0"
    using mod_mod_cancel[of 100 400 y] by simp
  have d2: "y mod 100 = 0 \<Longrightarrow> y mod 4 = 0"
    using mod_mod_cancel[of 4 100 y] by simp
  show ?thesis
    using d1 d2 unfolding DayFromYear_def DaysInYear_def
    by (simp add: a b c)
qed

lemma div_bounds:
  fixes a n :: int
  assumes "0 < n"
  shows "n * (a div n) \<le> a" "a < n * (a div n) + n"
  using assms pos_mod_sign[of n a] pos_mod_bound[of n a] mult_div_mod_eq[of n a] by linarith+

lemma DayFromYear_approx:
  "146097 * (y - 1970) - 506 \<le> 400 * DayFromYear y"
  "400 * DayFromYear y \<le> 146097 * (y - 1970) + 589"
proof -
  define A where "A = (y - 1969) div 4"
  define B where "B = (y - 1901) div 100"
  define C where "C = (y - 1601) div 400"
  have a: "4 * A \<le> y - 1969" "y - 1969 < 4 * A + 4"
    unfolding A_def using div_bounds[of 4 "y - 1969"] by simp_all
  have b: "100 * B \<le> y - 1901" "y - 1901 < 100 * B + 100"
    unfolding B_def using div_bounds[of 100 "y - 1901"] by simp_all
  have c: "400 * C \<le> y - 1601" "y - 1601 < 400 * C + 400"
    unfolding C_def using div_bounds[of 400 "y - 1601"] by simp_all
  have D: "DayFromYear y = 365 * (y - 1970) + A - B + C"
    by (simp add: DayFromYear_def A_def B_def C_def)
  show "146097 * (y - 1970) - 506 \<le> 400 * DayFromYear y"
    unfolding D using a b c by (simp add: algebra_simps)
  show "400 * DayFromYear y \<le> 146097 * (y - 1970) + 589"
    unfolding D using a b c by (simp add: algebra_simps)
qed

lemma YearFromDay_bounds:
  "DayFromYear (YearFromDay d) \<le> d" "d < DayFromYear (YearFromDay d + 1)"
proof -
  define q where "q = (400 * d) div 146097"
  have q: "146097 * q \<le> 400 * d" "400 * d < 146097 * q + 146097"
    unfolding q_def using div_bounds[of 146097 "400 * d"] by simp_all
  have lo: "DayFromYear (1970 + q - 1) \<le> d"
    using DayFromYear_approx(2)[of "1970 + q - 1"] q by (simp add: algebra_simps)
  have hi: "d < DayFromYear (1970 + q + 1 + 1)"
    using DayFromYear_approx(1)[of "1970 + q + 1 + 1"] q by (simp add: algebra_simps)
  have Y: "YearFromDay d =
     (if d < DayFromYear (1970 + q) then 1970 + q - 1
      else if DayFromYear (1970 + q + 1) \<le> d then 1970 + q + 1
      else 1970 + q)"
    by (simp add: YearFromDay_def q_def Let_def)
  show "DayFromYear (YearFromDay d) \<le> d" using lo unfolding Y by auto
  show "d < DayFromYear (YearFromDay d + 1)" using hi unfolding Y by auto
qed

lemma DayFromYear_mono: "y \<le> y' \<Longrightarrow> DayFromYear y \<le> DayFromYear y'"
proof (induction y' rule: int_ge_induct)
  case base
  show ?case by simp
next
  case (step i)
  have "0 < DaysInYear i" by (simp add: DaysInYear_def)
  with step show ?case by (simp add: DayFromYear_Suc)
qed

lemma YearFromDay_unique:
  assumes "DayFromYear y \<le> d" "d < DayFromYear (y + 1)"
  shows "YearFromDay d = y"
proof (rule ccontr)
  let ?z = "YearFromDay d"
  assume ne: "?z \<noteq> y"
  have b: "DayFromYear ?z \<le> d" "d < DayFromYear (?z + 1)"
    using YearFromDay_bounds[of d] by simp_all
  show False
  proof (cases "?z < y")
    case True
    then have "DayFromYear (?z + 1) \<le> DayFromYear y"
      using DayFromYear_mono[of "?z + 1" y] by simp
    with assms b show False by simp
  next
    case False
    with ne have "DayFromYear (y + 1) \<le> DayFromYear ?z"
      using DayFromYear_mono[of "y + 1" ?z] by simp
    with assms b show False by simp
  qed
qed

lemma div_mod_12:
  fixes y m :: int
  assumes "0 \<le> m" "m < 12"
  shows "(12 * y + m) div 12 = y" "(12 * y + m) mod 12 = m"
  using assms by simp_all

lemma MakeDay_firstDay: "MakeDay y m dt = firstDay (12 * y + m) + dt - 1"
proof -
  have "(12 * y + m) div 12 = y + m div 12" by simp
  moreover have "(12 * y + m) mod 12 = m mod 12" by simp
  ultimately show ?thesis by (simp add: MakeDay_def firstDay_def Let_def)
qed

lemma firstDay_eq:
  "firstDay k = DayFromYear (k div 12) + DaysBeforeMonth (k mod 12) (if DaysInYear (k div 12) = 366 then 1 else 0)"
  by (simp add: firstDay_def MakeDay_def Let_def)

lemma firstDay_step:
  "firstDay k + 28 \<le> firstDay (k + 1)" "firstDay (k + 1) \<le> firstDay k + 31"
proof -
  define r where "r = k mod 12"
  define q where "q = k div 12"
  have rb: "0 \<le> r" "r < 12" by (simp_all add: r_def)
  have m1: "(k + 1) mod 12 = (r + 1) mod 12" by (simp add: r_def mod_add_left_eq)
  have d1: "(k + 1) div 12 = q + (if (r + 1) mod 12 = 0 then 1 else 0)"
    using div_step[of 12 k] m1 by (simp add: q_def)
  have cases: "r = 0 \<or> r = 1 \<or> r = 2 \<or> r = 3 \<or> r = 4 \<or> r = 5 \<or> r = 6 \<or> r = 7 \<or> r = 8 \<or> r = 9 \<or> r = 10 \<or> r = 11"
    using rb by presburger
  have F: "firstDay k = DayFromYear q + DaysBeforeMonth r (if DaysInYear q = 366 then 1 else 0)"
    by (simp add: firstDay_eq q_def r_def)
  have F1: "firstDay (k + 1) =
     DayFromYear (q + (if (r + 1) mod 12 = 0 then 1 else 0))
     + DaysBeforeMonth ((r + 1) mod 12) (if DaysInYear (q + (if (r + 1) mod 12 = 0 then 1 else 0)) = 366 then 1 else 0)"
    by (simp add: firstDay_eq d1 m1)
  have Y: "DaysInYear q = 365 \<or> DaysInYear q = 366" by (simp add: DaysInYear_def)
  show "firstDay k + 28 \<le> firstDay (k + 1)"
    unfolding F F1 using cases Y
    by (elim disjE) (simp_all add: DaysBeforeMonth_def DayFromYear_Suc)
  show "firstDay (k + 1) \<le> firstDay k + 31"
    unfolding F F1 using cases Y
    by (elim disjE) (simp_all add: DaysBeforeMonth_def DayFromYear_Suc)
qed

lemma firstDay_mono: "k \<le> k' \<Longrightarrow> firstDay k \<le> firstDay k'"
proof (induction k' rule: int_ge_induct)
  case base
  show ?case by simp
next
  case (step i)
  with firstDay_step(1)[of i] show ?case by simp
qed

lemma firstDay_less: "k < k' \<Longrightarrow> firstDay k < firstDay k'"
  using firstDay_mono[of "k + 1" k'] firstDay_step(1)[of k] by simp

lemma DayWithinYear_bounds:
  "0 \<le> DayWithinYear t" "DayWithinYear t < DaysInYear (YearFromTime t)"
  using YearFromDay_bounds[of "Day t"] DayFromYear_Suc[of "YearFromTime t"]
  by (simp_all add: DayWithinYear_def YearFromTime_def)

lemma MonthFromTime_range: "0 \<le> MonthFromTime t" "MonthFromTime t < 12"
  by (simp_all add: MonthFromTime_def Let_def)

lemma MonthFromTime_table:
  "DaysBeforeMonth (MonthFromTime t) (InLeapYear t) \<le> DayWithinYear t"
  "DayWithinYear t <
     (if MonthFromTime t = 11 then DaysInYear (YearFromTime t)
      else DaysBeforeMonth (MonthFromTime t + 1) (InLeapYear t))"
proof -
  define d where "d = DayWithinYear t"
  define l where "l = InLeapYear t"
  have l: "l = 0 \<or> l = 1" by (simp add: l_def InLeapYear_def)
  have Y: "DaysInYear (YearFromTime t) = 365 + l"
    by (simp add: l_def InLeapYear_def DaysInYear_def)
  have d: "0 \<le> d" "d < 365 + l"
    using DayWithinYear_bounds[of t] Y by (simp_all add: d_def)
  have M: "MonthFromTime t =
      (if d < 31 then 0
      else if d < 59 + l then 1
      else if d < 90 + l then 2
      else if d < 120 + l then 3
      else if d < 151 + l then 4
      else if d < 181 + l then 5
      else if d < 212 + l then 6
      else if d < 243 + l then 7
      else if d < 273 + l then 8
      else if d < 304 + l then 9
      else if d < 334 + l then 10
      else 11)"
    by (simp add: MonthFromTime_def Let_def d_def l_def)
  show "DaysBeforeMonth (MonthFromTime t) (InLeapYear t) \<le> DayWithinYear t"
    unfolding M d_def[symmetric] l_def[symmetric] using d l
    by (auto simp add: DaysBeforeMonth_def)
  show "DayWithinYear t <
     (if MonthFromTime t = 11 then DaysInYear (YearFromTime t)
      else DaysBeforeMonth (MonthFromTime t + 1) (InLeapYear t))"
    unfolding M Y d_def[symmetric] l_def[symmetric] using d l
    by (auto simp add: DaysBeforeMonth_def)
qed

lemma monthIndex_div_mod:
  "monthIndex t div 12 = YearFromTime t" "monthIndex t mod 12 = MonthFromTime t"
  using div_mod_12[of "MonthFromTime t" "YearFromTime t"] MonthFromTime_range[of t]
  by (simp_all add: monthIndex_def)

lemma firstDay_monthIndex:
  "firstDay (monthIndex t) =
     DayFromYear (YearFromTime t) + DaysBeforeMonth (MonthFromTime t) (InLeapYear t)"
  by (simp add: firstDay_eq monthIndex_div_mod InLeapYear_def)

lemma month_bounds:
  "firstDay (monthIndex t) \<le> Day t" "Day t < firstDay (monthIndex t + 1)"
proof -
  show "firstDay (monthIndex t) \<le> Day t"
    using MonthFromTime_table(1)[of t]
    by (simp add: firstDay_monthIndex DayWithinYear_def)
  show "Day t < firstDay (monthIndex t + 1)"
  proof (cases "MonthFromTime t = 11")
    case True
    then have e: "monthIndex t + 1 = 12 * (YearFromTime t + 1)"
      by (simp add: monthIndex_def)
    have "firstDay (monthIndex t + 1) = DayFromYear (YearFromTime t + 1)"
      unfolding e firstDay_eq by (simp add: DaysBeforeMonth_def)
    then show ?thesis
      using MonthFromTime_table(2)[of t] True
      by (simp add: DayFromYear_Suc DayWithinYear_def)
  next
    case False
    then have r: "0 \<le> MonthFromTime t + 1" "MonthFromTime t + 1 < 12"
      using MonthFromTime_range[of t] by simp_all
    have e: "monthIndex t + 1 = 12 * YearFromTime t + (MonthFromTime t + 1)"
      by (simp add: monthIndex_def)
    have "firstDay (monthIndex t + 1) =
        DayFromYear (YearFromTime t) + DaysBeforeMonth (MonthFromTime t + 1) (InLeapYear t)"
      unfolding e firstDay_eq div_mod_12[OF r] by (simp add: InLeapYear_def)
    then show ?thesis
      using MonthFromTime_table(2)[of t] False
      by (simp add: DayWithinYear_def)
  qed
qed

lemma monthIndex_unique:
  assumes "firstDay k \<le> Day t" "Day t < firstDay (k + 1)"
  shows "monthIndex t = k"
proof (rule ccontr)
  assume ne: "monthIndex t \<noteq> k"
  show False
  proof (cases "monthIndex t < k")
    case True
    then have "firstDay (monthIndex t + 1) \<le> firstDay k"
      using firstDay_mono[of "monthIndex t + 1" k] by simp
    with assms month_bounds[of t] show False by simp
  next
    case False
    with ne have "firstDay (k + 1) \<le> firstDay (monthIndex t)"
      using firstDay_mono[of "k + 1" "monthIndex t"] by simp
    with assms month_bounds[of t] show False by simp
  qed
qed

lemma DateFromTime_eq: "DateFromTime t = Day t - firstDay (monthIndex t) + 1"
  by (simp add: DateFromTime_def firstDay_monthIndex DayWithinYear_def)

lemma Day_bounds: "Day t * msPerDay \<le> t" "t < Day t * msPerDay + msPerDay"
  using div_bounds[of msPerDay t] by (simp_all add: Day_def msPerDay_def)

lemma Day_mono: "t \<le> t' \<Longrightarrow> Day t \<le> Day t'"
  by (simp add: Day_def msPerDay_def zdiv_mono1)

lemma monthIndex_mono:
  assumes "t \<le> t'"
  shows "monthIndex t \<le> monthIndex t'"
proof (rule ccontr)
  assume "\<not> monthIndex t \<le> monthIndex t'"
  then have "firstDay (monthIndex t' + 1) \<le> firstDay (monthIndex t)"
    using firstDay_mono[of "monthIndex t' + 1" "monthIndex t"] by simp
  with month_bounds[of t] month_bounds[of t'] Day_mono[OF assms] show False by simp
qed

lemma firstInstant_bounds:
  "firstInstant (monthIndex t) \<le> t" "t < firstInstant (monthIndex t + 1)"
proof -
  have "firstDay (monthIndex t) * msPerDay \<le> Day t * msPerDay"
    using month_bounds(1)[of t] by (simp add: msPerDay_def)
  then show "firstInstant (monthIndex t) \<le> t"
    using Day_bounds(1)[of t] by (simp add: firstInstant_def MakeDate_def)
  have "Day t + 1 \<le> firstDay (monthIndex t + 1)"
    using month_bounds(2)[of t] by simp
  then have "(Day t + 1) * msPerDay \<le> firstDay (monthIndex t + 1) * msPerDay"
    by (simp add: msPerDay_def)
  then show "t < firstInstant (monthIndex t + 1)"
    using Day_bounds(2)[of t] by (simp add: firstInstant_def MakeDate_def algebra_simps)
qed

lemma Day_MakeDate:
  assumes "0 \<le> tm" "tm < msPerDay"
  shows "Day (MakeDate d tm) = d" "TimeWithinDay (MakeDate d tm) = tm"
  using assms by (simp_all add: Day_def TimeWithinDay_def MakeDate_def msPerDay_def)

lemma monthIndex_in:
  assumes "firstInstant k \<le> t" "t < firstInstant (k + 1)"
  shows "monthIndex t = k"
proof (rule monthIndex_unique)
  have "firstDay k * msPerDay < Day t * msPerDay + msPerDay"
    using assms(1) Day_bounds(2)[of t] by (simp add: firstInstant_def MakeDate_def)
  then show "firstDay k \<le> Day t" by (simp add: msPerDay_def)
  have "Day t * msPerDay < firstDay (k + 1) * msPerDay"
    using assms(2) Day_bounds(1)[of t] by (simp add: firstInstant_def MakeDate_def)
  then show "Day t < firstDay (k + 1)" by (simp add: msPerDay_def)
qed

lemma firstInstant_step:
  "firstInstant k + 28 * msPerDay \<le> firstInstant (k + 1)"
  "firstInstant (k + 1) \<le> firstInstant k + 31 * msPerDay"
  using firstDay_step[of k] by (simp_all add: firstInstant_def MakeDate_def msPerDay_def)

lemma firstInstant_mono: "k \<le> k' \<Longrightarrow> firstInstant k \<le> firstInstant k'"
  using firstDay_mono[of k k'] by (simp add: firstInstant_def MakeDate_def msPerDay_def)

lemma monthIndex_firstInstant: "monthIndex (firstInstant k) = k"
  using firstInstant_step(1)[of k] by (intro monthIndex_in) (simp_all add: msPerDay_def)

lemma firstInstant_facts:
  "Day (firstInstant k) = firstDay k" "TimeWithinDay (firstInstant k) = 0"
  "DateFromTime (firstInstant k) = 1"
  by (simp_all add: firstInstant_def Day_MakeDate msPerDay_def DateFromTime_eq
      monthIndex_firstInstant[unfolded firstInstant_def])

lemma position_bounds:
  "real_of_int (monthIndex t) \<le> position t" "position t < real_of_int (monthIndex t) + 1"
proof -
  let ?k = "monthIndex t"
  have d: "0 < firstInstant (?k + 1) - firstInstant ?k"
    using firstInstant_step(1)[of ?k] by (simp add: msPerDay_def)
  have n: "0 \<le> t - firstInstant ?k" "t - firstInstant ?k < firstInstant (?k + 1) - firstInstant ?k"
    using firstInstant_bounds[of t] by simp_all
  have "0 \<le> real_of_int (t - firstInstant ?k) / real_of_int (firstInstant (?k + 1) - firstInstant ?k)"
    using d n by simp
  then show "real_of_int ?k \<le> position t" by (simp add: position_def)
  have "real_of_int (t - firstInstant ?k) / real_of_int (firstInstant (?k + 1) - firstInstant ?k) < 1"
    using d n by simp
  then show "position t < real_of_int ?k + 1" by (simp add: position_def)
qed

lemma position_firstInstant: "position (firstInstant k) = real_of_int k"
  by (simp add: position_def monthIndex_firstInstant)

lemma position_less:
  assumes "t < t'"
  shows "position t < position t'"
proof (cases "monthIndex t = monthIndex t'")
  case True
  let ?k = "monthIndex t"
  have d: "0 < real_of_int (firstInstant (?k + 1) - firstInstant ?k)"
    using firstInstant_step(1)[of ?k] by (simp add: msPerDay_def)
  have "real_of_int (t - firstInstant ?k) < real_of_int (t' - firstInstant ?k)"
    using assms by simp
  then have "real_of_int (t - firstInstant ?k) / real_of_int (firstInstant (?k + 1) - firstInstant ?k)
      < real_of_int (t' - firstInstant ?k) / real_of_int (firstInstant (?k + 1) - firstInstant ?k)"
    using d by (simp only: divide_strict_right_mono)
  then show ?thesis by (simp add: position_def True[symmetric])
next
  case False
  with monthIndex_mono[of t t'] assms have "monthIndex t + 1 \<le> monthIndex t'" by simp
  then have "real_of_int (monthIndex t) + 1 \<le> real_of_int (monthIndex t')" by linarith
  with position_bounds(2)[of t] position_bounds(1)[of t'] show ?thesis by linarith
qed

lemma position_mono: "t \<le> t' \<Longrightarrow> position t \<le> position t'"
  using position_less[of t t'] by (cases "t = t'") simp_all

lemma getFullYear_Some: "getFullYear tz (Some t) = Some (YearFromTime (t + tz))"
  by (simp add: getFullYear_def LocalTime_def)

lemma getMonth_Some: "getMonth tz (Some t) = Some (MonthFromTime (t + tz))"
  by (simp add: getMonth_def LocalTime_def)

lemma monthDiff_Some:
  "monthDiff tz (Some a) (Some b) = Some (monthIndex (b + tz) - monthIndex (a + tz))"
  by (simp add: monthDiff_def getFullYear_Some getMonth_Some monthIndex_def)

lemma monthDiff_None: "monthDiff tz None b = None" "monthDiff tz a None = None"
  by (simp_all add: monthDiff_def getFullYear_def getMonth_def)

lemma startOfMonth_Some:
  "startOfMonth tz (Some t) = TimeClip (firstInstant (ctorMonth (monthIndex (t + tz))) - tz)"
  by (simp add: startOfMonth_def Date_fields_def getFullYear_Some getMonth_Some
      UTC_def MakeDay_firstDay MakeTime_def firstInstant_def ctorMonth_def monthIndex_div_mod)

lemma ctorMonth_plain: "plainYear tz t \<Longrightarrow> ctorMonth (monthIndex (t + tz)) = monthIndex (t + tz)"
  using mult_div_mod_eq[of 12 "monthIndex (t + tz)"]
  by (auto simp add: plainYear_def LocalTime_def ctorMonth_def MakeFullYear_def monthIndex_div_mod)

lemma startOfMonth_plain:
  assumes "plainYear tz t"
  shows "startOfMonth tz (Some t) = TimeClip (firstInstant (monthIndex (t + tz)) - tz)"
  by (simp add: startOfMonth_Some ctorMonth_plain[OF assms])

lemma startOfMonth_None: "startOfMonth tz None = None"
  by (simp add: startOfMonth_def Date_fields_def getFullYear_def)

lemma addMonths_Some:
  "addMonths tz (Some t) n =
     TimeClip (MakeDate (firstDay (monthIndex (t + tz) + n) + DateFromTime (t + tz) - 1)
                 (TimeWithinDay (t + tz)) - tz)"
  by (simp add: addMonths_def setMonth_def getMonth_Some LocalTime_def UTC_def
      MakeDay_firstDay monthIndex_def Let_def algebra_simps)

lemma addMonths_None: "addMonths tz None n = None"
  by (simp add: addMonths_def setMonth_def)

lemma addMonths_firstInstant:
  "addMonths tz (Some (firstInstant k - tz)) n = TimeClip (firstInstant (k + n) - tz)"
  by (simp add: addMonths_Some firstInstant_facts monthIndex_firstInstant)
     (simp add: firstInstant_def)

lemma TimeClip_Some: "TimeClip t = Some u \<Longrightarrow> u = t"
  by (simp add: TimeClip_def split: if_splits)

lemma TimeClip_in: "\<bar>t\<bar> \<le> 8640000000000000 \<Longrightarrow> TimeClip t = Some t"
  by (simp add: TimeClip_def)

lemma x_general:
  "x tz (Some t0) ppm (Some t) =
     (if TimeClip (firstInstant (ctorMonth (monthIndex (t0 + tz))) - tz) \<noteq> None
         \<and> TimeClip (firstInstant (ctorMonth (monthIndex (t + tz))) - tz) \<noteq> None
         \<and> TimeClip (firstInstant (ctorMonth (monthIndex (t + tz)) + 1) - tz) \<noteq> None
      then Some ((real_of_int (ctorMonth (monthIndex (t + tz)) - ctorMonth (monthIndex (t0 + tz)))
                  + real_of_int (t + tz - firstInstant (ctorMonth (monthIndex (t + tz))))
                    / real_of_int (firstInstant (ctorMonth (monthIndex (t + tz)) + 1)
                                   - firstInstant (ctorMonth (monthIndex (t + tz))))) * ppm)
      else None)"
proof -
  let ?j = "ctorMonth (monthIndex (t0 + tz))"
  let ?k = "ctorMonth (monthIndex (t + tz))"
  let ?A = "TimeClip (firstInstant ?j - tz)"
  let ?S = "TimeClip (firstInstant ?k - tz)"
  let ?N = "TimeClip (firstInstant (?k + 1) - tz)"
  have s0: "startOfMonth tz (Some t0) = ?A" by (rule startOfMonth_Some)
  have s: "startOfMonth tz (Some t) = ?S" by (rule startOfMonth_Some)
  show ?thesis
  proof (cases "?A = None \<or> ?S = None")
    case True
    then show ?thesis
      by (auto simp add: x_def s0 s monthDiff_None)
  next
    case False
    then have S0: "?A = Some (firstInstant ?j - tz)" and S: "?S = Some (firstInstant ?k - tz)"
      by (auto dest: TimeClip_Some)
    have md: "monthDiff tz ?A ?S = Some (?k - ?j)"
      unfolding S0 S by (simp add: monthDiff_Some monthIndex_firstInstant)
    have nm: "addMonths tz ?S 1 = ?N"
      unfolding S by (rule addMonths_firstInstant)
    show ?thesis
    proof (cases "?N = None")
      case True
      then show ?thesis by (simp add: x_def s0 s md nm Let_def)
    next
      case False
      then have N: "?N = Some (firstInstant (?k + 1) - tz)" by (auto dest: TimeClip_Some)
      have d: "firstInstant (?k + 1) - tz - (firstInstant ?k - tz) \<noteq> 0"
        using firstInstant_step(1)[of ?k] by (simp add: msPerDay_def)
      have d': "real_of_int (firstInstant (?k + 1)) - real_of_int (firstInstant ?k) \<noteq> 0"
        using d by linarith
      have "x tz (Some t0) ppm (Some t) =
          Some (real_of_int (?k - ?j) * ppm
            + real_of_int (t - (firstInstant ?k - tz))
              / real_of_int (firstInstant (?k + 1) - tz - (firstInstant ?k - tz)) * ppm)"
        using d' by (simp add: x_def s0 s md nm Let_def js_div_def) (simp add: S N)
      also have "\<dots> = Some ((real_of_int (?k - ?j)
                  + real_of_int (t + tz - firstInstant ?k)
                    / real_of_int (firstInstant (?k + 1) - firstInstant ?k)) * ppm)"
        by (simp add: algebra_simps)
      finally show ?thesis using S0 S N by simp
    qed
  qed
qed

lemma x_value:
  assumes "plainYear tz t"
  shows "x tz (Some t0) ppm (Some t) =
     (if TimeClip (firstInstant (ctorMonth (monthIndex (t0 + tz))) - tz) \<noteq> None
         \<and> TimeClip (firstInstant (monthIndex (t + tz)) - tz) \<noteq> None
         \<and> TimeClip (firstInstant (monthIndex (t + tz) + 1) - tz) \<noteq> None
      then Some ((position (t + tz) - real_of_int (ctorMonth (monthIndex (t0 + tz)))) * ppm)
      else None)"
  unfolding x_general ctorMonth_plain[OF assms] by (simp add: position_def algebra_simps)

lemma x_eval:
  assumes "ctorMonth (monthIndex (t0 + tz)) = j" and "ctorMonth (monthIndex (t + tz)) = k"
    and "firstInstant j = fj" and "firstInstant k = fk" and "firstInstant (k + 1) = fn"
    and "\<bar>fj - tz\<bar> \<le> 8640000000000000" and "\<bar>fk - tz\<bar> \<le> 8640000000000000"
    and "\<bar>fn - tz\<bar> \<le> 8640000000000000"
  shows "x tz (Some t0) ppm (Some t) =
     Some ((real_of_int (k - j) + real_of_int (t + tz - fk) / real_of_int (fn - fk)) * ppm)"
  using assms by (simp add: x_general TimeClip_in)

lemma YearFromTime_firstInstant: "YearFromTime (firstInstant k) = k div 12"
  using monthIndex_div_mod(1)[of "firstInstant k"] by (simp add: monthIndex_firstInstant)

lemma Date_fields_first:
  assumes "y < 0 \<or> 99 < y"
  shows "Date_fields tz (Some y) (Some m) 1 0 0 0 0 = TimeClip (firstInstant (12 * y + m) - tz)"
  using assms
  by (auto simp add: Date_fields_def MakeFullYear_def UTC_def MakeDay_firstDay MakeTime_def
      firstInstant_def)

lemma plainYear_firstInstant: "plainYear tz (firstInstant k - tz) = (k div 12 < 0 \<or> 99 < k div 12)"
  by (simp add: plainYear_def LocalTime_def YearFromTime_firstInstant)

lemma resolve_empty: "resolve tz [] padMonths = \<lparr>dom_min = None, dom_max = None\<rparr>"
  by (simp add: resolve_def Math_min_def Math_max_def Date_number_def startOfYear_def
      endOfYear_def Date_fields_def getFullYear_def addMonths_None)

lemma x_None: "x tz None pxPerMonth d = None"
  by (simp add: x_def startOfMonth_None monthDiff_None)

lemma Math_min_cases:
  "(case Math_min (map Number ds) of
      Infinity \<Rightarrow> ds = []
    | Finite m \<Rightarrow> Some m \<in> set ds \<and> (\<forall>d\<in>set ds. \<exists>t. d = Some t \<and> m \<le> t)
    | NaN \<Rightarrow> True
    | MinusInfinity \<Rightarrow> False)"
proof (induction ds)
  case Nil
  show ?case by (simp add: Math_min_def)
next
  case (Cons d ds)
  have step: "Math_min (map Number (d # ds)) = min2 (Number d) (Math_min (map Number ds))"
    by (simp add: Math_min_def)
  show ?case
  proof (cases d)
    case None
    then have "Number d = NaN" by (simp add: Number_def)
    then show ?thesis unfolding step by simp
  next
    case (Some t)
    then have nd: "Number d = Finite t" by (simp add: Number_def)
    show ?thesis
      using Cons.IH unfolding step nd
      by (cases "Math_min (map Number ds)") (auto simp add: Some min_def)
  qed
qed

lemma Math_max_cases:
  "(case Math_max (map Number ds) of
      MinusInfinity \<Rightarrow> ds = []
    | Finite m \<Rightarrow> Some m \<in> set ds \<and> (\<forall>d\<in>set ds. \<exists>t. d = Some t \<and> t \<le> m)
    | NaN \<Rightarrow> True
    | Infinity \<Rightarrow> False)"
proof (induction ds)
  case Nil
  show ?case by (simp add: Math_max_def)
next
  case (Cons d ds)
  have step: "Math_max (map Number (d # ds)) = max2 (Number d) (Math_max (map Number ds))"
    by (simp add: Math_max_def)
  show ?case
  proof (cases d)
    case None
    then have "Number d = NaN" by (simp add: Number_def)
    then show ?thesis unfolding step by simp
  next
    case (Some t)
    then have nd: "Number d = Finite t" by (simp add: Number_def)
    show ?thesis
      using Cons.IH unfolding step nd
      by (cases "Math_max (map Number ds)") (auto simp add: Some max_def)
  qed
qed

lemma startOfYear_None: "startOfYear tz None = None"
  by (simp add: startOfYear_def Date_fields_def getFullYear_def)

lemma endOfYear_None: "endOfYear tz None = None"
  by (simp add: endOfYear_def Date_fields_def getFullYear_def)

lemma Date_number_Some: "Date_number n = Some t \<Longrightarrow> n = Finite t"
  by (cases n) (auto simp add: Date_number_def dest: TimeClip_Some)

lemma resolve_Some:
  assumes "resolve tz dates pad = \<lparr>dom_min = Some lo, dom_max = Some hi\<rparr>"
  obtains m M where
    "Some m \<in> set dates" "\<forall>d\<in>set dates. \<exists>t. d = Some t \<and> m \<le> t"
    "Some M \<in> set dates" "\<forall>d\<in>set dates. \<exists>t. d = Some t \<and> t \<le> M"
    "addMonths tz (startOfYear tz (Some m)) (- pad) = Some lo"
    "addMonths tz (endOfYear tz (Some M)) pad = Some hi"
proof -
  let ?a = "Date_number (Math_min (map Number dates))"
  let ?b = "Date_number (Math_max (map Number dates))"
  from assms have lo: "addMonths tz (startOfYear tz ?a) (- pad) = Some lo"
    and hi: "addMonths tz (endOfYear tz ?b) pad = Some hi"
    by (simp_all add: resolve_def Let_def)
  from lo obtain m where a: "?a = Some m"
    by (cases ?a) (simp_all add: startOfYear_None addMonths_None)
  from hi obtain M where b: "?b = Some M"
    by (cases ?b) (simp_all add: endOfYear_None addMonths_None)
  have mn: "Math_min (map Number dates) = Finite m" using a by (rule Date_number_Some)
  have mx: "Math_max (map Number dates) = Finite M" using b by (rule Date_number_Some)
  have lo': "addMonths tz (startOfYear tz (Some m)) (- pad) = Some lo" using lo a by simp
  have hi': "addMonths tz (endOfYear tz (Some M)) pad = Some hi" using hi b by simp
  show thesis
    using Math_min_cases[of dates] Math_max_cases[of dates] lo' hi'
    unfolding mn mx by (intro that[of m M]) simp_all
qed

lemma firstDay_year: "firstDay (12 * y) = DayFromYear y"
  by (simp add: firstDay_eq DaysBeforeMonth_def)

lemma firstDay_december: "firstDay (12 * y + 12) = firstDay (12 * y + 11) + 31"
proof -
  have "firstDay (12 * y + 12) = DayFromYear (y + 1)"
    using firstDay_year[of "y + 1"] by (simp add: algebra_simps)
  moreover have "firstDay (12 * y + 11) = DayFromYear y + DaysBeforeMonth 11 (if DaysInYear y = 366 then 1 else 0)"
    using div_mod_12[of 11 y] by (simp add: firstDay_eq)
  moreover have "DaysInYear y = 365 \<or> DaysInYear y = 366" by (simp add: DaysInYear_def)
  ultimately show ?thesis by (auto simp add: DayFromYear_Suc DaysBeforeMonth_def)
qed

lemma startOfYear_plain:
  assumes "plainYear tz t"
  shows "startOfYear tz (Some t) = TimeClip (firstInstant (12 * YearFromTime (t + tz)) - tz)"
  using assms Date_fields_first[of "YearFromTime (t + tz)" tz 0]
  by (simp add: startOfYear_def getFullYear_Some plainYear_def LocalTime_def)

lemma endOfYear_plain:
  assumes "plainYear tz t"
  shows "endOfYear tz (Some t) = TimeClip (firstInstant (12 * YearFromTime (t + tz) + 12) - 1 - tz)"
proof -
  let ?y = "YearFromTime (t + tz)"
  have "MakeDate (MakeDay ?y 11 31) (MakeTime 23 59 59 999) = firstInstant (12 * ?y + 12) - 1"
    by (simp add: MakeDay_firstDay firstInstant_def firstDay_december MakeDate_def MakeTime_def
        msPerDay_def)
  then show ?thesis
    using assms
    by (auto simp add: endOfYear_def getFullYear_Some plainYear_def LocalTime_def Date_fields_def
        MakeFullYear_def UTC_def)
qed

lemma lastInstant_facts:
  "Day (firstInstant k - 1) = firstDay k - 1"
  "TimeWithinDay (firstInstant k - 1) = msPerDay - 1"
  "monthIndex (firstInstant k - 1) = k - 1"
proof -
  have e: "firstInstant k - 1 = MakeDate (firstDay k - 1) (msPerDay - 1)"
    by (simp add: firstInstant_def MakeDate_def msPerDay_def)
  show d: "Day (firstInstant k - 1) = firstDay k - 1"
    unfolding e by (rule Day_MakeDate) (simp_all add: msPerDay_def)
  show "TimeWithinDay (firstInstant k - 1) = msPerDay - 1"
    unfolding e by (rule Day_MakeDate) (simp_all add: msPerDay_def)
  show "monthIndex (firstInstant k - 1) = k - 1"
    using firstDay_step(1)[of "k - 1"] by (intro monthIndex_unique) (simp_all add: d)
qed

lemma addMonths_lastInstant:
  "addMonths tz (Some (firstInstant k - 1 - tz)) n =
     TimeClip (MakeDate (firstDay (k - 1 + n) + (firstDay k - firstDay (k - 1)) - 1) (msPerDay - 1) - tz)"
  by (simp add: addMonths_Some lastInstant_facts DateFromTime_eq)

lemma addMonths_lastInstant_ge:
  assumes "0 \<le> n" "addMonths tz (Some (firstInstant k - 1 - tz)) n = Some hi"
  shows "firstInstant k - 1 - tz \<le> hi"
proof -
  have "hi = MakeDate (firstDay (k - 1 + n) + (firstDay k - firstDay (k - 1)) - 1) (msPerDay - 1) - tz"
    using assms(2) unfolding addMonths_lastInstant by (rule TimeClip_Some)
  moreover have "firstDay (k - 1) \<le> firstDay (k - 1 + n)"
    using assms(1) by (intro firstDay_mono) simp
  ultimately show ?thesis
    by (simp add: firstInstant_def MakeDate_def msPerDay_def)
qed

lemma YearFromTime_mono: "t \<le> t' \<Longrightarrow> YearFromTime t \<le> YearFromTime t'"
  using monthIndex_mono[of t t'] zdiv_mono1[of "monthIndex t" "monthIndex t'" 12]
  by (simp add: monthIndex_div_mod)

lemma resolve_shape:
  assumes pad: "0 \<le> pad"
    and res: "resolve tz dates pad = \<lparr>dom_min = Some lo, dom_max = Some hi\<rparr>"
    and plain: "\<forall>t. Some t \<in> set dates \<longrightarrow> plainYear tz t"
  obtains m M where
    "\<forall>d\<in>set dates. \<exists>t. d = Some t \<and> m \<le> t \<and> t \<le> M"
    "m \<le> M"
    "lo = firstInstant (12 * YearFromTime (m + tz) - pad) - tz"
    "firstInstant (12 * YearFromTime (M + tz) + 12) - 1 - tz \<le> hi"
proof -
  from res obtain m M where
    m: "Some m \<in> set dates" "\<forall>d\<in>set dates. \<exists>t. d = Some t \<and> m \<le> t" and
    M: "Some M \<in> set dates" "\<forall>d\<in>set dates. \<exists>t. d = Some t \<and> t \<le> M" and
    lo: "addMonths tz (startOfYear tz (Some m)) (- pad) = Some lo" and
    hi: "addMonths tz (endOfYear tz (Some M)) pad = Some hi"
    by (rule resolve_Some)
  let ?y = "YearFromTime (m + tz)"
  let ?Y = "YearFromTime (M + tz)"
  have pm: "plainYear tz m" and pM: "plainYear tz M" using plain m(1) M(1) by simp_all
  have "startOfYear tz (Some m) \<noteq> None"
    using lo by (cases "startOfYear tz (Some m)") (simp_all add: addMonths_None)
  then have sy: "startOfYear tz (Some m) = Some (firstInstant (12 * ?y) - tz)"
    unfolding startOfYear_plain[OF pm] by (auto dest: TimeClip_Some)
  have "lo = firstInstant (12 * ?y + - pad) - tz"
    using lo unfolding sy addMonths_firstInstant by (rule TimeClip_Some)
  then have 1: "lo = firstInstant (12 * ?y - pad) - tz" by simp
  have "endOfYear tz (Some M) \<noteq> None"
    using hi by (cases "endOfYear tz (Some M)") (simp_all add: addMonths_None)
  then have ey: "endOfYear tz (Some M) = Some (firstInstant (12 * ?Y + 12) - 1 - tz)"
    unfolding endOfYear_plain[OF pM] by (auto dest: TimeClip_Some)
  have 2: "firstInstant (12 * ?Y + 12) - 1 - tz \<le> hi"
    using hi unfolding ey by (rule addMonths_lastInstant_ge[OF pad])
  have 3: "m \<le> M" using m(2) M(1) by auto
  have 4: "\<forall>d\<in>set dates. \<exists>t. d = Some t \<and> m \<le> t \<and> t \<le> M"
    using m(2) M(2) by (metis option.inject)
  show thesis by (rule that[OF 4 3 1 2])
qed

lemma year_start_le: "firstInstant (12 * YearFromTime t) \<le> t"
proof -
  have "firstInstant (12 * YearFromTime t) \<le> firstInstant (monthIndex t)"
    using MonthFromTime_range(1)[of t] by (intro firstInstant_mono) (simp add: monthIndex_def)
  with firstInstant_bounds(1)[of t] show ?thesis by simp
qed

lemma year_end_gt: "t < firstInstant (12 * YearFromTime t + 12)"
proof -
  have "firstInstant (monthIndex t + 1) \<le> firstInstant (12 * YearFromTime t + 12)"
    using MonthFromTime_range(2)[of t] by (intro firstInstant_mono) (simp add: monthIndex_def)
  with firstInstant_bounds(2)[of t] show ?thesis by simp
qed

lemma resolve_bounds:
  assumes pad: "0 \<le> pad"
    and res: "resolve tz dates pad = \<lparr>dom_min = Some lo, dom_max = Some hi\<rparr>"
    and plain: "\<forall>t. Some t \<in> set dates \<longrightarrow> plainYear tz t"
  shows "\<forall>d\<in>set dates. \<exists>t. d = Some t \<and> lo \<le> t \<and> t \<le> hi"
proof -
  from pad res plain obtain m M where
    b: "\<forall>d\<in>set dates. \<exists>t. d = Some t \<and> m \<le> t \<and> t \<le> M" and
    lo: "lo = firstInstant (12 * YearFromTime (m + tz) - pad) - tz" and
    hi: "firstInstant (12 * YearFromTime (M + tz) + 12) - 1 - tz \<le> hi"
    by (rule resolve_shape)
  have "firstInstant (12 * YearFromTime (m + tz) - pad) \<le> firstInstant (12 * YearFromTime (m + tz))"
    using pad by (intro firstInstant_mono) simp
  with year_start_le[of "m + tz"] lo have "lo \<le> m" by simp
  moreover from year_end_gt[of "M + tz"] hi have "M \<le> hi" by simp
  ultimately show ?thesis using b by force
qed

text \<open>The resolved minimum is the first instant of a month, and a month after it is still in range.\<close>

lemma TimeClip_between:
  assumes "TimeClip a = Some a" "TimeClip b = Some b" "a \<le> t" "t \<le> b"
  shows "TimeClip t = Some t"
  using assms by (simp add: TimeClip_def split: if_splits)

lemma resolve_valid:
  assumes "resolve tz dates pad = \<lparr>dom_min = Some lo, dom_max = Some hi\<rparr>"
  shows "TimeClip lo = Some lo" "TimeClip hi = Some hi"
proof -
  from assms have lo: "addMonths tz (startOfYear tz (Date_number (Math_min (map Number dates)))) (- pad) = Some lo"
    and hi: "addMonths tz (endOfYear tz (Date_number (Math_max (map Number dates)))) pad = Some hi"
    by (simp_all add: resolve_def Let_def)
  have v: "addMonths tz d n = Some u \<Longrightarrow> TimeClip u = Some u" for d n u
    by (cases d) (auto simp add: addMonths_None addMonths_Some dest: TimeClip_Some)
  show "TimeClip lo = Some lo" using lo by (rule v)
  show "TimeClip hi = Some hi" using hi by (rule v)
qed

lemma resolve_origin:
  assumes pad: "0 \<le> pad"
    and res: "resolve tz dates pad = \<lparr>dom_min = Some lo, dom_max = Some hi\<rparr>"
    and plain: "\<forall>t. Some t \<in> set dates \<longrightarrow> plainYear tz t"
  obtains k where "lo = firstInstant k - tz" "TimeClip (firstInstant (k + 1) - tz) \<noteq> None"
proof -
  from pad res plain obtain m M where
    mM: "m \<le> M" and
    lo: "lo = firstInstant (12 * YearFromTime (m + tz) - pad) - tz" and
    hi: "firstInstant (12 * YearFromTime (M + tz) + 12) - 1 - tz \<le> hi"
    by (rule resolve_shape)
  let ?k = "12 * YearFromTime (m + tz) - pad"
  have "YearFromTime (m + tz) \<le> YearFromTime (M + tz)"
    using mM by (intro YearFromTime_mono) simp
  then have "firstInstant (?k + 1) \<le> firstInstant (12 * YearFromTime (M + tz) + 11)"
    using pad by (intro firstInstant_mono) simp
  moreover have "firstInstant (12 * YearFromTime (M + tz) + 11) < firstInstant (12 * YearFromTime (M + tz) + 12)"
    using firstInstant_step(1)[of "12 * YearFromTime (M + tz) + 11"]
    by (simp add: msPerDay_def algebra_simps)
  ultimately have up: "firstInstant (?k + 1) - tz \<le> hi" using hi by linarith
  have "firstInstant ?k \<le> firstInstant (?k + 1)" by (intro firstInstant_mono) simp
  then have low: "lo \<le> firstInstant (?k + 1) - tz" using lo by simp
  have "TimeClip (firstInstant (?k + 1) - tz) = Some (firstInstant (?k + 1) - tz)"
    using resolve_valid[OF res] low up by (rule TimeClip_between)
  then show thesis using lo by (intro that[of ?k]) simp_all
qed

lemma plainDate_Some: "plainDate tz (Some t) = plainYear tz t"
  by (simp add: plainDate_def)

subsection \<open>What is drawn for an item\<close>

lemma itemGroup_bar:
  assumes "endDate parse it = Some e"
  shows "itemGroup parse tz dmin ppm lh it =
     \<lparr>translate_x = Some 100, translate_y = 0,
      shape = Rect (x tz dmin ppm (toDate parse (start it))) (lh / 2 - 10)
                (Math_max2 2 (js_sub (x tz dmin ppm e) (x tz dmin ppm (toDate parse (start it))))) 20\<rparr>"
  using assms by (simp add: itemGroup_def Let_def)

lemma itemGroup_point:
  assumes "endDate parse it = None"
  shows "itemGroup parse tz dmin ppm lh it =
     \<lparr>translate_x = x tz dmin ppm (toDate parse (start it)), translate_y = 0,
      shape = Circle 0 (lh / 2) 6\<rparr>"
  using assms by (simp add: itemGroup_def Let_def)

lemma railItemGroup_bar:
  assumes "endDate parse it = Some e"
  shows "railItemGroup parse tz dmin it =
     \<lparr>translate_x = Some 0, translate_y = 0,
      shape = Rect (x tz dmin PX_PER_MONTH (toDate parse (start it)))
                ((if rail it = Some 1 then LANE_HEIGHT + RAIL_OFFSET else LANE_HEIGHT / 2) - 20)
                (Math_max2 2 (js_sub (x tz dmin PX_PER_MONTH e) (x tz dmin PX_PER_MONTH (toDate parse (start it))))) 40\<rparr>"
  using assms by (simp add: railItemGroup_def Let_def)

lemma partItemGroup_bar:
  assumes "endDate parse it = Some e"
  shows "partItemGroup parse tz dmin it =
     \<lparr>translate_x = Some 100, translate_y = 0,
      shape = Rect (x tz dmin PX_PER_MONTH (toDate parse (start it))) (LANE_HEIGHT / 2 - 20)
                (Math_max2 2 (js_sub (x tz dmin PX_PER_MONTH e) (x tz dmin PX_PER_MONTH (toDate parse (start it))))) 40\<rparr>"
  using assms by (simp add: partItemGroup_def Let_def)

lemma Math_max2_sub: "Math_max2 2 (js_sub (Some b) (Some a)) = Some (max 2 (b - a))"
  by (simp add: Math_max2_def js_sub_def)

lemma endDate_cases:
  "endDate parse it = None \<longleftrightarrow> \<not> truthy (end' it)"
  "truthy (end' it) \<Longrightarrow> endDate parse it = Some (toDate_opt parse (end' it))"
  by (simp_all add: endDate_def)

lemma Math_max2_floor: "Math_max2 2 v = Some w \<Longrightarrow> 2 \<le> w"
  by (auto simp add: Math_max2_def)

lemma SvgTimeline_shapes:
  "map (\<lambda>g. map shape (item_groups g))
       (lane_groups (SvgTimeline parse tz data lanes laneHeight laneGap pxPerMonth padMonths))
     = map (\<lambda>l. map (\<lambda>it. shape (itemGroup parse tz (dom_min (domainFromData parse tz data padMonths))
                                     pxPerMonth laneHeight it))
                      (filter (\<lambda>d. lane d = l) data)) lanes"
  (is "?l = map ?F lanes")
proof -
  have "?l = map (?F \<circ> snd) (enumerate 0 lanes)"
    by (simp add: SvgTimeline_def Let_def case_prod_unfold comp_def)
  also have "\<dots> = map ?F (map snd (enumerate 0 lanes))"
    by (simp only: map_map)
  also have "\<dots> = map ?F lanes"
    by (simp only: map_snd_enumerate)
  finally show ?thesis .
qed

subsection \<open>Lanes and ticks\<close>

lemma SvgTimeline_rails_lanes:
  assumes "SvgTimeline_rails parse tz data = Some dr"
  shows "lane_groups dr =
     map (\<lambda>l. \<lparr>lane_top = yTop l,
               item_groups = map (railItemGroup parse tz (dom_min (domainFromLanes parse tz data PAD_MONTHS))) (items l)\<rparr>)
       (Object_values data)"
  using assms by (auto simp add: SvgTimeline_rails_def Let_def split: Option.bind_splits)

lemma SvgTimeline_rails_Some:
  assumes "railsHeight data = Some h"
  shows "\<exists>dr. SvgTimeline_rails parse tz data = Some dr"
  using assms by (simp add: SvgTimeline_rails_def Let_def)

lemma SvgTimeline_lane:
  assumes "i < length lanes"
  shows "lane_groups (SvgTimeline parse tz data lanes laneHeight laneGap pxPerMonth padMonths) ! i =
     \<lparr>lane_top = 40 + real i * (laneHeight + laneGap),
      item_groups =
        map (itemGroup parse tz (dom_min (domainFromData parse tz data padMonths)) pxPerMonth laneHeight)
          (filter (\<lambda>d. lane d = lanes ! i) data)\<rparr>"
  using assms by (simp add: SvgTimeline_def Let_def nth_enumerate_eq)

lemma itemGroup_center:
  "translate_y (itemGroup parse tz dmin pxPerMonth laneHeight it)
   + centerY (shape (itemGroup parse tz dmin pxPerMonth laneHeight it)) = laneHeight / 2"
  by (cases "endDate parse it") (simp_all add: itemGroup_point itemGroup_bar centerY_def)

lemma railItemGroup_center:
  "translate_y (railItemGroup parse tz dmin it) + centerY (shape (railItemGroup parse tz dmin it))
     = (if rail it = Some 1 then LANE_HEIGHT + RAIL_OFFSET else LANE_HEIGHT / 2)"
  by (simp add: railItemGroup_def Let_def centerY_def)

lemma yearsLoop_upto: "yearsLoop a b = [a..b]"
proof (induction a b rule: yearsLoop.induct)
  case (1 y ymax)
  show ?case
  proof (cases "y \<le> ymax")
    case True
    with 1 show ?thesis by (subst yearsLoop.simps) (simp add: upto_rec1[of y ymax])
  next
    case False
    then show ?thesis by (subst yearsLoop.simps) simp
  qed
qed

lemma yearsBetween_Some:
  "yearsBetween tz (Some lo) (Some hi) = [YearFromTime (lo + tz)..YearFromTime (hi + tz)]"
  by (simp add: yearsBetween_def getFullYear_Some yearsLoop_upto)

lemma resolve_unpadded:
  assumes res: "resolve tz dates 0 = \<lparr>dom_min = Some lo, dom_max = Some hi\<rparr>"
    and plain: "\<forall>t. Some t \<in> set dates \<longrightarrow> plainYear tz t"
  obtains y0 y1 where
    "lo = firstInstant (12 * y0) - tz" "hi = firstInstant (12 * y1 + 12) - 1 - tz"
    "YearFromTime (lo + tz) = y0" "YearFromTime (hi + tz) = y1"
proof -
  from res obtain m M where
    m: "Some m \<in> set dates" and M: "Some M \<in> set dates" and
    lo: "addMonths tz (startOfYear tz (Some m)) (- 0) = Some lo" and
    hi: "addMonths tz (endOfYear tz (Some M)) 0 = Some hi"
    by (rule resolve_Some)
  let ?y = "YearFromTime (m + tz)"
  let ?Y = "YearFromTime (M + tz)"
  have pm: "plainYear tz m" and pM: "plainYear tz M" using plain m M by simp_all
  have "startOfYear tz (Some m) \<noteq> None"
    using lo by (cases "startOfYear tz (Some m)") (simp_all add: addMonths_None)
  then have sy: "startOfYear tz (Some m) = Some (firstInstant (12 * ?y) - tz)"
    unfolding startOfYear_plain[OF pm] by (auto dest: TimeClip_Some)
  have "lo = firstInstant (12 * ?y + - 0) - tz"
    using lo unfolding sy addMonths_firstInstant by (rule TimeClip_Some)
  then have 1: "lo = firstInstant (12 * ?y) - tz" by simp
  have "endOfYear tz (Some M) \<noteq> None"
    using hi by (cases "endOfYear tz (Some M)") (simp_all add: addMonths_None)
  then have ey: "endOfYear tz (Some M) = Some (firstInstant (12 * ?Y + 12) - 1 - tz)"
    unfolding endOfYear_plain[OF pM] by (auto dest: TimeClip_Some)
  have "hi = MakeDate (firstDay (12 * ?Y + 12 - 1 + 0) + (firstDay (12 * ?Y + 12) - firstDay (12 * ?Y + 12 - 1)) - 1)
               (msPerDay - 1) - tz"
    using hi unfolding ey addMonths_lastInstant by (rule TimeClip_Some)
  then have 2: "hi = firstInstant (12 * ?Y + 12) - 1 - tz"
    by (simp add: firstInstant_def MakeDate_def msPerDay_def)
  have 3: "YearFromTime (lo + tz) = ?y"
    by (simp add: 1 YearFromTime_firstInstant)
  have "monthIndex (hi + tz) = 12 * ?Y + 12 - 1"
    using lastInstant_facts(3)[of "12 * ?Y + 12"] by (simp add: 2)
  then have 4: "YearFromTime (hi + tz) = ?Y"
    using monthIndex_div_mod(1)[of "hi + tz"] by simp
  show thesis by (rule that[OF 1 2 3 4])
qed

lemma tick_value:
  assumes lo: "lo = firstInstant (12 * y0) - tz" and hi: "hi = firstInstant (12 * y1 + 12) - 1 - tz"
    and v: "TimeClip lo = Some lo" "TimeClip hi = Some hi"
    and plain: "y1 < 0 \<or> 99 < y0"
    and y: "y0 \<le> y" "y \<le> y1"
  shows "Date_fields tz (Some y) (Some 0) 1 0 0 0 0 = Some (firstInstant (12 * y) - tz)"
    and "x tz (Some lo) ppm (Some (firstInstant (12 * y) - tz)) = Some (real_of_int (12 * (y - y0)) * ppm)"
proof -
  have py: "y < 0 \<or> 99 < y" and py0: "y0 < 0 \<or> 99 < y0" using plain y by auto
  have a: "firstInstant (12 * y0) \<le> firstInstant (12 * y)"
    using y by (intro firstInstant_mono) simp
  have "firstInstant (12 * y + 1) \<le> firstInstant (12 * y1 + 11)"
    using y by (intro firstInstant_mono) simp
  moreover have "firstInstant (12 * y1 + 11) < firstInstant (12 * y1 + 12)"
    using firstInstant_step(1)[of "12 * y1 + 11"] by (simp add: msPerDay_def algebra_simps)
  ultimately have b: "firstInstant (12 * y + 1) \<le> firstInstant (12 * y1 + 12) - 1" by linarith
  have c: "firstInstant (12 * y) \<le> firstInstant (12 * y + 1)"
    by (intro firstInstant_mono) simp
  have in1: "TimeClip (firstInstant (12 * y) - tz) = Some (firstInstant (12 * y) - tz)"
    using v by (rule TimeClip_between) (use a b c lo hi in linarith)+
  have in2: "TimeClip (firstInstant (12 * y + 1) - tz) = Some (firstInstant (12 * y + 1) - tz)"
    using v by (rule TimeClip_between) (use a b c lo hi in linarith)+
  show d: "Date_fields tz (Some y) (Some 0) 1 0 0 0 0 = Some (firstInstant (12 * y) - tz)"
    using Date_fields_first[OF py, of tz 0] in1 by simp
  have pl: "plainYear tz (firstInstant (12 * y) - tz)"
    using py by (simp add: plainYear_firstInstant)
  have j: "ctorMonth (monthIndex (lo + tz)) = 12 * y0"
    using py0 by (auto simp add: lo monthIndex_firstInstant ctorMonth_def MakeFullYear_def)
  have in0: "TimeClip (firstInstant (12 * y0) - tz) = Some (firstInstant (12 * y0) - tz)"
    using v(1) by (simp add: lo)
  have "x tz (Some lo) ppm (Some (firstInstant (12 * y) - tz))
      = Some ((real_of_int (12 * y) - real_of_int (12 * y0)) * ppm)"
    unfolding x_value[OF pl]
    by (simp add: j monthIndex_firstInstant in0 in1 in2 position_firstInstant)
  also have "\<dots> = Some (real_of_int (12 * (y - y0)) * ppm)"
    by (simp add: algebra_simps)
  finally show "x tz (Some lo) ppm (Some (firstInstant (12 * y) - tz)) = Some (real_of_int (12 * (y - y0)) * ppm)" .
qed

lemma SvgTimeline_ticks:
  "ticks (SvgTimeline parse tz data lanes laneHeight laneGap pxPerMonth padMonths) =
     map (\<lambda>y. (y, js_add (x tz (dom_min (domainFromData parse tz data padMonths)) pxPerMonth
                             (Date_fields tz (Some y) (Some 0) 1 0 0 0 0)) (Some 100)))
       (yearsBetween tz (dom_min (domainFromData parse tz data padMonths))
          (dom_max (domainFromData parse tz data padMonths)))"
  by (simp add: SvgTimeline_def Let_def)

text \<open>Evaluations that several examples share.\<close>

lemma year100_domain:
  "domainFromLanes parseDateOnly 0 year100_lanes PAD_MONTHS_part
     = \<lparr>dom_min = Some (- 59024678400000), dom_max = Some (- 58966876800001)\<rparr>"
  by code_simp

lemma year100_months:
  "ctorMonth (monthIndex (- 59024678400000 + 0)) = 23995"
  "firstInstant 23995 = 933465600000"
  "firstInstant (23995 + 1) = 936144000000"
  by code_simp+

lemma DATA_plain:
  "\<forall>l\<in>set (Object_values DATA). \<forall>it\<in>set (items l). \<forall>d\<in>set (laneItemDates parseDateOnly it). plainDate 0 d"
  by code_simp

subsection \<open>When the domain is defined\<close>

text \<open>
  The domain of a non-empty collection of valid dates has two valid dates when the dates
  lie at least \<open>13 + padMonths\<close> months of 31 days inside the range of time values (the
  local years of the dates being outside 0 to 99).
\<close>

lemma firstInstant_within:
  "firstInstant (monthIndex t) > t - 31 * msPerDay" "firstInstant (monthIndex t + 1) \<le> t + 31 * msPerDay"
  using firstInstant_bounds[of t] firstInstant_step(2)[of "monthIndex t"] by linarith+

lemma firstInstant_back:
  assumes "0 \<le> n"
  shows "firstInstant k - n * (31 * msPerDay) \<le> firstInstant (k - n)"
  using assms
proof (induction n rule: int_ge_induct)
  case base
  show ?case by simp
next
  case (step i)
  have "firstInstant (k - (i + 1) + 1) \<le> firstInstant (k - (i + 1)) + 31 * msPerDay"
    by (rule firstInstant_step(2))
  moreover have "k - (i + 1) + 1 = k - i" by simp
  ultimately show ?case using step.IH by (simp add: algebra_simps)
qed

lemma firstInstant_forth:
  assumes "0 \<le> n"
  shows "firstInstant (k + n) \<le> firstInstant k + n * (31 * msPerDay)"
  using assms
proof (induction n rule: int_ge_induct)
  case base
  show ?case by simp
next
  case (step i)
  have "firstInstant (k + i + 1) \<le> firstInstant (k + i) + 31 * msPerDay"
    by (rule firstInstant_step(2))
  then show ?case using step.IH by (simp add: algebra_simps)
qed

lemma Math_min_Finite:
  assumes "ds \<noteq> []" "None \<notin> set ds"
  shows "\<exists>m. Math_min (map Number ds) = Finite m"
  using assms
proof (induction ds)
  case Nil
  then show ?case by simp
next
  case (Cons d ds)
  from Cons.prems obtain t where d: "d = Some t" by (cases d) auto
  have step: "Math_min (map Number (d # ds)) = min2 (Number d) (Math_min (map Number ds))"
    by (simp add: Math_min_def)
  show ?case
  proof (cases "ds = []")
    case True
    then show ?thesis by (simp add: Math_min_def Number_def d)
  next
    case False
    with Cons obtain m where "Math_min (map Number ds) = Finite m" by auto
    then show ?thesis unfolding step by (simp add: Number_def d)
  qed
qed

lemma Math_max_Finite:
  assumes "ds \<noteq> []" "None \<notin> set ds"
  shows "\<exists>m. Math_max (map Number ds) = Finite m"
  using assms
proof (induction ds)
  case Nil
  then show ?case by simp
next
  case (Cons d ds)
  from Cons.prems obtain t where d: "d = Some t" by (cases d) auto
  have step: "Math_max (map Number (d # ds)) = max2 (Number d) (Math_max (map Number ds))"
    by (simp add: Math_max_def)
  show ?case
  proof (cases "ds = []")
    case True
    then show ?thesis by (simp add: Math_max_def Number_def d)
  next
    case False
    with Cons obtain m where "Math_max (map Number ds) = Finite m" by auto
    then show ?thesis unfolding step by (simp add: Number_def d)
  qed
qed

lemma resolve_defined:
  assumes ne: "dates \<noteq> []" and pad: "0 \<le> pad"
    and ok: "\<forall>d\<in>set dates. \<exists>t. d = Some t \<and> plainYear tz t
               \<and> \<bar>t\<bar> + (13 + pad) * (31 * msPerDay) \<le> 8640000000000000"
  shows "\<exists>lo hi. resolve tz dates pad = \<lparr>dom_min = Some lo, dom_max = Some hi\<rparr>"
proof -
  have nn: "None \<notin> set dates" using ok by auto
  from Math_min_Finite[OF ne nn] obtain m where m: "Math_min (map Number dates) = Finite m" ..
  from Math_max_Finite[OF ne nn] obtain M where M: "Math_max (map Number dates) = Finite M" ..
  have "Some m \<in> set dates" "Some M \<in> set dates"
    using Math_min_cases[of dates] Math_max_cases[of dates] by (simp_all add: m M)
  with ok have pm: "plainYear tz m" and bm: "\<bar>m\<bar> + (13 + pad) * (31 * msPerDay) \<le> 8640000000000000"
    and pM: "plainYear tz M" and bM: "\<bar>M\<bar> + (13 + pad) * (31 * msPerDay) \<le> 8640000000000000"
    by auto
  have pd: "0 \<le> pad * (31 * msPerDay)" using pad by (simp add: msPerDay_def)
  have cm: "Date_number (Finite m) = Some m" and cM: "Date_number (Finite M) = Some M"
    using bm bM pd by (simp_all add: Date_number_def TimeClip_def msPerDay_def)
  let ?y = "YearFromTime (m + tz)" and ?Y = "YearFromTime (M + tz)"
  \<comment> \<open>the lower end\<close>
  have y1: "firstInstant (12 * ?y) \<le> m + tz" by (rule year_start_le)
  have "firstInstant (12 * ?y + 12) \<le> firstInstant (12 * ?y) + 12 * (31 * msPerDay)"
    using firstInstant_forth[of 12 "12 * ?y"] by simp
  with year_end_gt[of "m + tz"] have y2: "m + tz - 12 * (31 * msPerDay) < firstInstant (12 * ?y)"
    by simp
  have s1: "startOfYear tz (Some m) = Some (firstInstant (12 * ?y) - tz)"
    unfolding startOfYear_plain[OF pm] using y1 y2 bm pd
    by (intro TimeClip_in) (simp add: msPerDay_def)
  have y3: "firstInstant (12 * ?y) - pad * (31 * msPerDay) \<le> firstInstant (12 * ?y - pad)"
    by (rule firstInstant_back[OF pad])
  have y4: "firstInstant (12 * ?y - pad) \<le> firstInstant (12 * ?y)"
    using pad by (intro firstInstant_mono) simp
  have lo: "addMonths tz (startOfYear tz (Some m)) (- pad) = Some (firstInstant (12 * ?y - pad) - tz)"
    unfolding s1 addMonths_firstInstant using y1 y2 y3 y4 bm
    by (simp add: TimeClip_def msPerDay_def)
  \<comment> \<open>the upper end\<close>
  let ?K = "12 * ?Y + 12"
  have Y1: "M + tz < firstInstant ?K" by (rule year_end_gt)
  have "firstInstant ?K \<le> firstInstant (12 * ?Y) + 12 * (31 * msPerDay)"
    using firstInstant_forth[of 12 "12 * ?Y"] by simp
  with year_start_le[of "M + tz"] have Y2: "firstInstant ?K \<le> M + tz + 12 * (31 * msPerDay)"
    by simp
  have e1: "endOfYear tz (Some M) = Some (firstInstant ?K - 1 - tz)"
    unfolding endOfYear_plain[OF pM] using Y1 Y2 bM pd
    by (intro TimeClip_in) (simp add: msPerDay_def)
  let ?h = "MakeDate (firstDay (?K - 1 + pad) + (firstDay ?K - firstDay (?K - 1)) - 1) (msPerDay - 1) - tz"
  have f1: "firstDay (?K - 1) \<le> firstDay (?K - 1 + pad)"
    using pad by (intro firstDay_mono) simp
  have "firstInstant (?K - 1 + pad) \<le> firstInstant (?K - 1) + pad * (31 * msPerDay)"
    by (rule firstInstant_forth[OF pad])
  then have f2: "firstDay (?K - 1 + pad) * msPerDay \<le> firstDay (?K - 1) * msPerDay + pad * (31 * msPerDay)"
    by (simp add: firstInstant_def MakeDate_def)
  have h1: "firstInstant ?K - 1 - tz \<le> ?h"
    using f1 by (simp add: firstInstant_def MakeDate_def msPerDay_def)
  have h2: "?h \<le> firstInstant ?K - 1 - tz + pad * (31 * msPerDay)"
    using f2 by (simp add: firstInstant_def MakeDate_def msPerDay_def)
  have hi: "addMonths tz (endOfYear tz (Some M)) pad = Some ?h"
    unfolding e1 addMonths_lastInstant using h1 h2 Y1 Y2 bM pd
    by (intro TimeClip_in) (simp add: msPerDay_def)
  show ?thesis
    by (simp add: resolve_def Let_def m M cm cM lo hi del: Date_number_def)
qed

subsection \<open>Inputs without a drawing\<close>

text \<open>
  A date that does not parse, or a padding that leaves the range of time values, makes
  both dates of the domain Invalid Dates.
\<close>

lemma unparseable_domain:
  "domainFromData parseDateOnly 0 unparseable_items DEFAULTS_padMonths = \<lparr>dom_min = None, dom_max = None\<rparr>"
  by code_simp

lemma overpadded_domain:
  "domainFromData parseDateOnly 0 DATA_flat 4000000 = \<lparr>dom_min = None, dom_max = None\<rparr>"
  by code_simp

subsection \<open>The year ticks\<close>

text \<open>
  The tick of a year \<open>y\<close> outside 0 to 99 is placed at the projection of the first instant
  of the month \<open>12 * y\<close>; \<^verbatim>\<open>Timeline.tsx\<close> adds 100 to it. For a whole number \<open>n\<close> of
  pixels per month the projection is \<open>n\<close> times the number of months from the month of the
  domain's minimum, a whole number.
\<close>

lemma tick_general:
  assumes pl: "YearFromTime (hi + tz) < 0 \<or> 99 < YearFromTime (lo + tz)"
    and y: "YearFromTime (lo + tz) \<le> y" "y \<le> YearFromTime (hi + tz)"
    and A: "\<bar>lo\<bar> + 12 * (31 * msPerDay) \<le> 8640000000000000"
    and B: "\<bar>hi\<bar> + 31 * msPerDay \<le> 8640000000000000"
  shows "Date_fields tz (Some y) (Some 0) 1 0 0 0 0 = Some (firstInstant (12 * y) - tz)"
    and "x tz (Some lo) (real_of_int n) (Some (firstInstant (12 * y) - tz))
           = Some (real_of_int (n * (12 * y - monthIndex (lo + tz))))"
proof -
  let ?y0 = "YearFromTime (lo + tz)" and ?y1 = "YearFromTime (hi + tz)"
  have py: "y < 0 \<or> 99 < y" and p0: "plainYear tz lo"
    using pl y by (auto simp add: plainYear_def LocalTime_def)
  have a: "firstInstant (12 * ?y0) \<le> firstInstant (12 * y)"
    using y by (intro firstInstant_mono) simp
  have "firstInstant (12 * ?y0 + 12) \<le> firstInstant (12 * ?y0) + 12 * (31 * msPerDay)"
    using firstInstant_forth[of 12 "12 * ?y0"] by simp
  with year_end_gt[of "lo + tz"] a
  have lower: "lo + tz - 12 * (31 * msPerDay) < firstInstant (12 * y)" by linarith
  have "firstInstant (12 * y + 1) \<le> firstInstant (12 * ?y1 + 1)"
    using y by (intro firstInstant_mono) simp
  moreover have "firstInstant (12 * ?y1 + 1) \<le> firstInstant (12 * ?y1) + 31 * msPerDay"
    by (rule firstInstant_step(2))
  ultimately have upper: "firstInstant (12 * y + 1) \<le> hi + tz + 31 * msPerDay"
    using year_start_le[of "hi + tz"] by linarith
  have c: "firstInstant (12 * y) \<le> firstInstant (12 * y + 1)"
    by (intro firstInstant_mono) simp
  have in1: "TimeClip (firstInstant (12 * y) - tz) = Some (firstInstant (12 * y) - tz)"
    using lower upper c A B by (intro TimeClip_in) (simp add: msPerDay_def)
  have in2: "TimeClip (firstInstant (12 * y + 1) - tz) = Some (firstInstant (12 * y + 1) - tz)"
    using lower upper c A B by (intro TimeClip_in) (simp add: msPerDay_def)
  have in0: "TimeClip (firstInstant (monthIndex (lo + tz)) - tz) = Some (firstInstant (monthIndex (lo + tz)) - tz)"
    using firstInstant_within(1)[of "lo + tz"] firstInstant_bounds(1)[of "lo + tz"] A
    by (intro TimeClip_in) (simp add: msPerDay_def)
  show "Date_fields tz (Some y) (Some 0) 1 0 0 0 0 = Some (firstInstant (12 * y) - tz)"
    using Date_fields_first[OF py, of tz 0] in1 by simp
  have pf: "plainYear tz (firstInstant (12 * y) - tz)"
    using py by (simp add: plainYear_firstInstant)
  have "x tz (Some lo) (real_of_int n) (Some (firstInstant (12 * y) - tz))
      = Some ((real_of_int (12 * y) - real_of_int (monthIndex (lo + tz))) * real_of_int n)"
    unfolding x_value[OF pf]
    by (simp add: ctorMonth_plain[OF p0] monthIndex_firstInstant in0 in1 in2 position_firstInstant)
  then show "x tz (Some lo) (real_of_int n) (Some (firstInstant (12 * y) - tz))
           = Some (real_of_int (n * (12 * y - monthIndex (lo + tz))))"
    by (simp add: algebra_simps)
qed

lemma flat_tick_years:
  assumes d: "domainFromData parse tz data padMonths = \<lparr>dom_min = Some lo, dom_max = Some hi\<rparr>"
  shows "ticks (SvgTimeline parse tz data lanes laneHeight laneGap pxPerMonth padMonths)
     = map (\<lambda>y. (y, js_add (x tz (Some lo) pxPerMonth (Date_fields tz (Some y) (Some 0) 1 0 0 0 0)) (Some 100)))
         [YearFromTime (lo + tz)..YearFromTime (hi + tz)]"
  by (simp add: SvgTimeline_ticks d yearsBetween_Some)

lemma flat_ticks_whole:
  assumes d: "domainFromData parse tz data padMonths = \<lparr>dom_min = Some lo, dom_max = Some hi\<rparr>"
    and pl: "YearFromTime (hi + tz) < 0 \<or> 99 < YearFromTime (lo + tz)"
    and A: "\<bar>lo\<bar> + 12 * (31 * msPerDay) \<le> 8640000000000000"
    and B: "\<bar>hi\<bar> + 31 * msPerDay \<le> 8640000000000000"
  shows "ticks (SvgTimeline parse tz data lanes laneHeight laneGap (real_of_int n) padMonths)
     = map (\<lambda>y. (y, Some (real_of_int (n * (12 * y - monthIndex (lo + tz)) + 100))))
         [YearFromTime (lo + tz)..YearFromTime (hi + tz)]"
proof -
  have V: "js_add (x tz (Some lo) (real_of_int n) (Date_fields tz (Some y) (Some 0) 1 0 0 0 0)) (Some 100)
      = Some (real_of_int (n * (12 * y - monthIndex (lo + tz)) + 100))"
    if "y \<in> set [YearFromTime (lo + tz)..YearFromTime (hi + tz)]" for y
  proof -
    from that have y: "YearFromTime (lo + tz) \<le> y" "y \<le> YearFromTime (hi + tz)" by simp_all
    note t = tick_general[OF pl y A B]
    show ?thesis unfolding t(1) t(2) by (simp add: js_add_def)
  qed
  show ?thesis
    unfolding flat_tick_years[OF d] by (rule map_cong) (simp_all only: V)
qed

lemma flat_ticks_increase:
  assumes d: "domainFromData parse tz data padMonths = \<lparr>dom_min = Some lo, dom_max = Some hi\<rparr>"
    and pl: "YearFromTime (hi + tz) < 0 \<or> 99 < YearFromTime (lo + tz)"
    and A: "\<bar>lo\<bar> + 12 * (31 * msPerDay) \<le> 8640000000000000"
    and B: "\<bar>hi\<bar> + 31 * msPerDay \<le> 8640000000000000"
    and n: "0 < n"
  shows "sorted_wrt (\<lambda>p q. fst p < fst q \<and> (\<exists>a b. snd p = Some a \<and> snd q = Some b \<and> a < b))
           (ticks (SvgTimeline parse tz data lanes laneHeight laneGap (real_of_int n) padMonths))"
  unfolding flat_ticks_whole[OF d pl A B] using n
  by (simp add: sorted_wrt_map sorted_wrt_upto)

lemma rails_tick_years:
  assumes "SvgTimeline_rails parse tz data = Some dr"
    and "domainFromLanes parse tz data PAD_MONTHS = \<lparr>dom_min = Some lo, dom_max = Some hi\<rparr>"
  shows "ticks dr =
      map (\<lambda>y. (y, x tz (Some lo) PX_PER_MONTH (Date_fields tz (Some y) (Some 0) 1 0 0 0 0)))
        [YearFromTime (lo + tz)..YearFromTime (hi + tz)]"
  using assms
  by (auto simp add: SvgTimeline_rails_def Let_def yearsBetween_Some split: Option.bind_splits)

lemma rails_ticks:
  assumes "SvgTimeline_rails parse tz data = Some dr"
    and "domainFromLanes parse tz data PAD_MONTHS = \<lparr>dom_min = Some lo, dom_max = Some hi\<rparr>"
    and "\<forall>l\<in>set (Object_values data). \<forall>it\<in>set (items l). \<forall>d\<in>set (laneItemDates parse it). plainDate tz d"
    and "YearFromTime (hi + tz) < 0 \<or> 99 < YearFromTime (lo + tz)"
  shows "map fst (ticks dr) = [YearFromTime (lo + tz)..YearFromTime (hi + tz)]
       \<and> (\<forall>p\<in>set (ticks dr).
            snd p = x tz (Some lo) PX_PER_MONTH (Date_fields tz (Some (fst p)) (Some 0) 1 0 0 0 0)
          \<and> Date_fields tz (Some (fst p)) (Some 0) 1 0 0 0 0 = Some (firstInstant (12 * fst p) - tz)
          \<and> snd p = Some (168 * real_of_int (fst p - YearFromTime (lo + tz))))
       \<and> sorted_wrt (\<lambda>p q. fst p < fst q \<and> (\<exists>a b. snd p = Some a \<and> snd q = Some b \<and> a < b)) (ticks dr)"
proof -
  let ?dates = "concat (map (\<lambda>l. concat (map (laneItemDates parse) (items l))) (Object_values data))"
  let ?y0 = "YearFromTime (lo + tz)" and ?y1 = "YearFromTime (hi + tz)"
  have res: "resolve tz ?dates 0 = \<lparr>dom_min = Some lo, dom_max = Some hi\<rparr>"
    using assms(2) by (simp add: domainFromLanes_def PAD_MONTHS_def)
  have plain: "\<forall>t. Some t \<in> set ?dates \<longrightarrow> plainYear tz t"
    using assms(3) by (auto simp add: plainDate_Some[symmetric])
  from res plain obtain y0 y1 where
    lo: "lo = firstInstant (12 * y0) - tz" and hi: "hi = firstInstant (12 * y1 + 12) - 1 - tz"
    and y0: "?y0 = y0" and y1: "?y1 = y1"
    by (rule resolve_unpadded)
  note v = resolve_valid[OF res]
  have pl: "y1 < 0 \<or> 99 < y0" using assms(4) y0 y1 by simp
  have T: "ticks dr =
      map (\<lambda>y. (y, x tz (Some lo) PX_PER_MONTH (Date_fields tz (Some y) (Some 0) 1 0 0 0 0))) [y0..y1]"
    using assms(1) assms(2) y0 y1
    by (auto simp add: SvgTimeline_rails_def Let_def yearsBetween_Some split: Option.bind_splits)
  have V: "Date_fields tz (Some y) (Some 0) 1 0 0 0 0 = Some (firstInstant (12 * y) - tz)"
    "x tz (Some lo) PX_PER_MONTH (Date_fields tz (Some y) (Some 0) 1 0 0 0 0)
       = Some (168 * real_of_int (y - y0))"
    if "y \<in> set [y0..y1]" for y
  proof -
    from that have y: "y0 \<le> y" "y \<le> y1" by simp_all
    note t = tick_value[OF lo hi v pl y]
    show "Date_fields tz (Some y) (Some 0) 1 0 0 0 0 = Some (firstInstant (12 * y) - tz)"
      by (rule t(1))
    show "x tz (Some lo) PX_PER_MONTH (Date_fields tz (Some y) (Some 0) 1 0 0 0 0)
       = Some (168 * real_of_int (y - y0))"
      unfolding t(1) t(2) by (simp add: PX_PER_MONTH_def)
  qed
  have T': "ticks dr = map (\<lambda>y. (y, Some (168 * real_of_int (y - y0)))) [y0..y1]"
    unfolding T by (rule map_cong) (simp_all only: V(2))
  have 1: "map fst (ticks dr) = [?y0..?y1]"
    by (simp add: T y0 y1 comp_def)
  have 2: "\<forall>p\<in>set (ticks dr).
            snd p = x tz (Some lo) PX_PER_MONTH (Date_fields tz (Some (fst p)) (Some 0) 1 0 0 0 0)
          \<and> Date_fields tz (Some (fst p)) (Some 0) 1 0 0 0 0 = Some (firstInstant (12 * fst p) - tz)
          \<and> snd p = Some (168 * real_of_int (fst p - ?y0))"
  proof
    fix p assume "p \<in> set (ticks dr)"
    then obtain y where p: "p = (y, x tz (Some lo) PX_PER_MONTH (Date_fields tz (Some y) (Some 0) 1 0 0 0 0))"
      and y: "y \<in> set [y0..y1]"
      unfolding T by auto
    show "snd p = x tz (Some lo) PX_PER_MONTH (Date_fields tz (Some (fst p)) (Some 0) 1 0 0 0 0)
          \<and> Date_fields tz (Some (fst p)) (Some 0) 1 0 0 0 0 = Some (firstInstant (12 * fst p) - tz)
          \<and> snd p = Some (168 * real_of_int (fst p - ?y0))"
      unfolding y0 using V[OF y] by (simp add: p)
  qed
  have 3: "sorted_wrt (\<lambda>p q. fst p < fst q \<and> (\<exists>a b. snd p = Some a \<and> snd q = Some b \<and> a < b)) (ticks dr)"
    unfolding T' by (simp add: sorted_wrt_map sorted_wrt_upto)
  from 1 2 3 show ?thesis by (intro conjI)
qed

subsection \<open>The shipped data under an offset of local time\<close>

text \<open>
  The dates of the shipped data are parsed as midnights UTC; the earliest is
  1 February 2016, and for every offset of local time of at most a day the domain starts
  at local midnight of 1 January 2016.
\<close>

lemma shipped_min:
  "Date_number (Math_min (map Number
      (concat (map (\<lambda>l. concat (map (laneItemDates parseDateOnly) (items l))) (Object_values DATA)))))
     = Some 1454284800000"
  by code_simp

lemma shipped_domain_min:
  assumes "\<bar>tz\<bar> \<le> msPerDay"
  shows "dom_min (domainFromLanes parseDateOnly tz DATA PAD_MONTHS)
           = Date_fields tz (Some 2016) (Some 0) 1 0 0 0 0"
    and "Date_fields tz (Some 2016) (Some 0) 1 0 0 0 0 = Some (firstInstant 24192 - tz)"
proof -
  have v: "firstInstant 24192 = 1451606400000" "firstInstant 24193 = 1454284800000"
    "firstInstant 24194 = 1456790400000"
    by code_simp+
  have tz: "\<bar>tz\<bar> \<le> 86400000" using assms by (simp add: msPerDay_def)
  show d: "Date_fields tz (Some 2016) (Some 0) 1 0 0 0 0 = Some (firstInstant 24192 - tz)"
    using tz by (simp add: Date_fields_first v TimeClip_in)
  have "monthIndex (1454284800000 + tz) = 24193 \<or> monthIndex (1454284800000 + tz) = 24192"
  proof (cases "0 \<le> tz")
    case True
    have "monthIndex (1454284800000 + tz) = 24193"
      using True tz by (intro monthIndex_in) (simp_all add: v)
    then show ?thesis ..
  next
    case False
    have "monthIndex (1454284800000 + tz) = 24192"
      using False tz by (intro monthIndex_in) (simp_all add: v)
    then show ?thesis ..
  qed
  then have y: "YearFromTime (1454284800000 + tz) = 2016"
    using monthIndex_div_mod(1)[of "1454284800000 + tz"] by auto
  have "startOfYear tz (Some 1454284800000) = Date_fields tz (Some 2016) (Some 0) 1 0 0 0 0"
    by (simp add: startOfYear_def getFullYear_Some y)
  moreover have "addMonths tz (Some (firstInstant 24192 - tz)) (- PAD_MONTHS)
      = TimeClip (firstInstant (24192 + - PAD_MONTHS) - tz)"
    by (rule addMonths_firstInstant)
  moreover have "TimeClip (firstInstant (24192 + - PAD_MONTHS) - tz) = Some (firstInstant 24192 - tz)"
    using tz by (simp add: PAD_MONTHS_def v TimeClip_in)
  ultimately have "addMonths tz (startOfYear tz (Some 1454284800000)) (- PAD_MONTHS) = Some (firstInstant 24192 - tz)"
    by (simp only: d)
  then show "dom_min (domainFromLanes parseDateOnly tz DATA PAD_MONTHS)
           = Date_fields tz (Some 2016) (Some 0) 1 0 0 0 0"
    unfolding d by (simp add: domainFromLanes_def resolve_def Let_def shipped_min del: Date_number_def)
qed


section \<open>The claims\<close>

subsection \<open>C7: the worked example of the scale\<close>

text \<open>
  C7 says that with 14 pixels per month and a domain that starts on 1 January 2016, the
  date 1 May 2020 is projected to exactly 52 * 14 = 728, where 52 is \<open>monthDiff\<close> of the
  two dates. The dates of the items are strings, and \<^verbatim>\<open>new Date("2020-05-01")\<close> is midnight
  UTC of that day, while the domain and the scale read and build the fields of local
  time. The counterexample is the shipped data two hours ahead of UTC: the domain starts
  at local midnight of 1 January 2016, and the start \<^verbatim>\<open>"2020-05-01"\<close> of the item, two hours
  into the local month of May, is projected to 135415 / 186, a little more than 728.
\<close>

theorem project_2020_05_counterexample:
  "dom_min (domainFromLanes parseDateOnly 7200000 DATA PAD_MONTHS) = Some 1451599200000
   \<and> parseDateOnly ''2020-05-01'' = Some 1588291200000
   \<and> x 7200000 (Some 1451599200000) PX_PER_MONTH (Some 1588291200000) = Some (135415 / 186)
   \<and> (135415 / 186 :: real) \<noteq> 728"
proof -
  have tz: "\<bar>7200000 :: int\<bar> \<le> msPerDay" by (simp add: msPerDay_def)
  have v: "firstInstant 24192 = 1451606400000" by code_simp
  have d: "dom_min (domainFromLanes parseDateOnly 7200000 DATA PAD_MONTHS) = Some 1451599200000"
    using shipped_domain_min[OF tz] by (simp add: v)
  have p: "parseDateOnly ''2020-05-01'' = Some 1588291200000" by code_simp
  have m: "ctorMonth (monthIndex (1451599200000 + 7200000)) = 24192"
    "ctorMonth (monthIndex (1588291200000 + 7200000)) = 24244"
    and f: "firstInstant 24244 = 1588291200000" "firstInstant (24244 + 1) = 1590969600000"
    by code_simp+
  have "x 7200000 (Some 1451599200000) PX_PER_MONTH (Some 1588291200000) = Some (135415 / 186)"
    using x_eval[OF m(1) m(2) v f(1) f(2)] by (simp add: PX_PER_MONTH_def)
  with d p show ?thesis by simp
qed

text \<open>
  C7 as amended: for every offset of local time of at most a day, the shipped data with
  no padding resolves to the domain that starts at local midnight of 1 January 2016
  (\<^verbatim>\<open>new Date(2016, 0, 1)\<close>); \<open>monthDiff\<close> from it to local midnight of 1 May 2020
  (\<^verbatim>\<open>new Date(2020, 4, 1)\<close>) is 52, and with 14 pixels per month that local midnight is
  projected to exactly 52 * 14 = 728. The date of the string \<^verbatim>\<open>"2020-05-01"\<close> is projected
  to exactly 728 when local time is UTC, to more than 728 when local time is ahead of UTC,
  and to less than 728 when it is behind.
\<close>

theorem project_2020_05:
  assumes "\<bar>tz\<bar> \<le> msPerDay"
  shows "dom_min (domainFromLanes parseDateOnly tz DATA PAD_MONTHS)
           = Date_fields tz (Some 2016) (Some 0) 1 0 0 0 0
       \<and> monthDiff tz (Date_fields tz (Some 2016) (Some 0) 1 0 0 0 0)
           (Date_fields tz (Some 2020) (Some 4) 1 0 0 0 0) = Some 52
       \<and> x tz (Date_fields tz (Some 2016) (Some 0) 1 0 0 0 0) PX_PER_MONTH
           (Date_fields tz (Some 2020) (Some 4) 1 0 0 0 0) = Some (52 * 14)
       \<and> (52 * 14 :: real) = 728
       \<and> (tz = 0 \<longrightarrow>
            x tz (Date_fields tz (Some 2016) (Some 0) 1 0 0 0 0) PX_PER_MONTH
              (parseDateOnly ''2020-05-01'') = Some 728)
       \<and> (0 < tz \<longrightarrow>
            (\<exists>v. x tz (Date_fields tz (Some 2016) (Some 0) 1 0 0 0 0) PX_PER_MONTH
                    (parseDateOnly ''2020-05-01'') = Some v \<and> 728 < v))
       \<and> (tz < 0 \<longrightarrow>
            (\<exists>v. x tz (Date_fields tz (Some 2016) (Some 0) 1 0 0 0 0) PX_PER_MONTH
                    (parseDateOnly ''2020-05-01'') = Some v \<and> v < 728))"
proof -
  have v: "firstInstant 24192 = 1451606400000" "firstInstant 24244 = 1588291200000"
    "firstInstant 24245 = 1590969600000" "firstInstant 24243 = 1585699200000"
    by code_simp+
  have p: "parseDateOnly ''2020-05-01'' = Some 1588291200000"
    by code_simp
  have cm: "ctorMonth 24192 = 24192" "ctorMonth 24244 = 24244" "ctorMonth 24243 = 24243"
    by code_simp+
  have f: "firstInstant (24244 + 1) = 1590969600000" "firstInstant (24243 + 1) = 1588291200000"
    by code_simp+
  have tz: "\<bar>tz\<bar> \<le> 86400000" using assms by (simp add: msPerDay_def)
  have r: "\<bar>1451606400000 - tz\<bar> \<le> 8640000000000000" "\<bar>1588291200000 - tz\<bar> \<le> 8640000000000000"
    "\<bar>1590969600000 - tz\<bar> \<le> 8640000000000000" "\<bar>1585699200000 - tz\<bar> \<le> 8640000000000000"
    using tz by linarith+
  note dm = shipped_domain_min[OF assms]
  have a: "Date_fields tz (Some 2016) (Some 0) 1 0 0 0 0 = Some (firstInstant 24192 - tz)"
    by (rule dm(2))
  have b: "Date_fields tz (Some 2020) (Some 4) 1 0 0 0 0 = Some (firstInstant 24244 - tz)"
    using tz by (simp add: Date_fields_first v TimeClip_in)
  have c: "TimeClip (firstInstant 24192 - tz) \<noteq> None" "TimeClip (firstInstant 24244 - tz) \<noteq> None"
    "TimeClip (firstInstant (24244 + 1) - tz) \<noteq> None"
    using tz by (simp_all add: v TimeClip_in)
  have md: "monthDiff tz (Some (firstInstant 24192 - tz)) (Some (firstInstant 24244 - tz)) = Some 52"
    by (simp add: monthDiff_Some monthIndex_firstInstant)
  have xv: "x tz (Some (firstInstant 24192 - tz)) PX_PER_MONTH (Some (firstInstant 24244 - tz)) = Some (52 * 14)"
    using c
    by (simp add: x_value plainYear_firstInstant monthIndex_firstInstant position_firstInstant
        PX_PER_MONTH_def ctorMonth_def MakeFullYear_def)
  have j: "ctorMonth (monthIndex (firstInstant 24192 - tz + tz)) = 24192"
    by (simp add: monthIndex_firstInstant cm)
  have zero: "x tz (Some (firstInstant 24192 - tz)) PX_PER_MONTH (Some 1588291200000) = Some 728"
    if "tz = 0"
    using xv unfolding that by (simp add: v)
  have pos: "\<exists>w. x tz (Some (firstInstant 24192 - tz)) PX_PER_MONTH (Some 1588291200000) = Some w \<and> 728 < w"
    if "0 < tz"
  proof -
    have "monthIndex (1588291200000 + tz) = 24244"
      using that tz by (intro monthIndex_in) (simp_all add: v)
    then have k: "ctorMonth (monthIndex (1588291200000 + tz)) = 24244" by (simp add: cm)
    have "x tz (Some (firstInstant 24192 - tz)) PX_PER_MONTH (Some 1588291200000)
        = Some ((real_of_int (24244 - 24192)
                 + real_of_int (1588291200000 + tz - 1588291200000) / real_of_int (1590969600000 - 1588291200000))
                * PX_PER_MONTH)"
      by (rule x_eval[OF j k v(1) v(2) f(1) r(1) r(2) r(3)])
    moreover have "728 < (real_of_int (24244 - 24192)
                 + real_of_int (1588291200000 + tz - 1588291200000) / real_of_int (1590969600000 - 1588291200000))
                * PX_PER_MONTH"
      using that by (simp add: PX_PER_MONTH_def)
    ultimately show ?thesis by blast
  qed
  have neg: "\<exists>w. x tz (Some (firstInstant 24192 - tz)) PX_PER_MONTH (Some 1588291200000) = Some w \<and> w < 728"
    if "tz < 0"
  proof -
    have "monthIndex (1588291200000 + tz) = 24243"
      using that tz by (intro monthIndex_in) (simp_all add: v)
    then have k: "ctorMonth (monthIndex (1588291200000 + tz)) = 24243" by (simp add: cm)
    have "x tz (Some (firstInstant 24192 - tz)) PX_PER_MONTH (Some 1588291200000)
        = Some ((real_of_int (24243 - 24192)
                 + real_of_int (1588291200000 + tz - 1585699200000) / real_of_int (1588291200000 - 1585699200000))
                * PX_PER_MONTH)"
      by (rule x_eval[OF j k v(1) v(4) f(2) r(1) r(4) r(2)])
    moreover have "(real_of_int (24243 - 24192)
                 + real_of_int (1588291200000 + tz - 1585699200000) / real_of_int (1588291200000 - 1585699200000))
                * PX_PER_MONTH < 728"
      using that by (simp add: PX_PER_MONTH_def field_simps)
    ultimately show ?thesis by blast
  qed
  from dm(1) md xv zero pos neg show ?thesis unfolding a b p by simp
qed

theorem project_2020_05_witness:
  "x 0 (parseDateOnly ''2016-01-01'') PX_PER_MONTH (parseDateOnly ''2020-05-01'') = Some 728
   \<and> dom_min (domainFromLanes parseDateOnly 0 DATA PAD_MONTHS) = parseDateOnly ''2016-01-01''
   \<and> (\<exists>v. x 7200000 (dom_min (domainFromLanes parseDateOnly 7200000 DATA PAD_MONTHS)) PX_PER_MONTH
             (parseDateOnly ''2020-05-01'') = Some v \<and> 728 < v)
   \<and> (\<exists>v. x (- 18000000) (dom_min (domainFromLanes parseDateOnly (- 18000000) DATA PAD_MONTHS)) PX_PER_MONTH
             (parseDateOnly ''2020-05-01'') = Some v \<and> v < 728)"
proof -
  have p: "parseDateOnly ''2016-01-01'' = Date_fields 0 (Some 2016) (Some 0) 1 0 0 0 0"
    by code_simp
  have z: "\<bar>0 :: int\<bar> \<le> msPerDay" and e: "\<bar>7200000 :: int\<bar> \<le> msPerDay"
    and w: "\<bar>- 18000000 :: int\<bar> \<le> msPerDay"
    by (simp_all add: msPerDay_def)
  note t0 = project_2020_05[OF z] and t1 = project_2020_05[OF e] and t2 = project_2020_05[OF w]
  from t0 have "x 0 (parseDateOnly ''2016-01-01'') PX_PER_MONTH (parseDateOnly ''2020-05-01'') = Some 728"
    unfolding p by blast
  moreover from t0 have "dom_min (domainFromLanes parseDateOnly 0 DATA PAD_MONTHS) = parseDateOnly ''2016-01-01''"
    unfolding p by (rule conjunct1)
  moreover from t1 have "\<exists>v. x 7200000 (dom_min (domainFromLanes parseDateOnly 7200000 DATA PAD_MONTHS)) PX_PER_MONTH
             (parseDateOnly ''2020-05-01'') = Some v \<and> 728 < v"
    by simp
  moreover from t2 have "\<exists>v. x (- 18000000) (dom_min (domainFromLanes parseDateOnly (- 18000000) DATA PAD_MONTHS)) PX_PER_MONTH
             (parseDateOnly ''2020-05-01'') = Some v \<and> v < 728"
    by simp
  ultimately show ?thesis by (intro conjI)
qed

subsection \<open>C3: the domain of an empty collection\<close>

text \<open>
  C3 says that resolving the domain of an empty collection fails with an explicit
  error and never returns NaN dates. The code has no error path: \<^verbatim>\<open>Math.min()\<close> of no
  arguments is \<open>+\<infinity>\<close>, \<^verbatim>\<open>new Date\<close> of it an Invalid Date, and both helpers pass it on.
  The counterexample evaluates the resolver on the empty record.
\<close>

theorem empty_domain_counterexample:
  "domainFromLanes parseDateOnly 0 [] PAD_MONTHS = \<lparr>dom_min = None, dom_max = None\<rparr>"
  by code_simp

text \<open>
  C3 as amended: on an empty collection the resolver raises nothing and returns the
  domain whose two dates are Invalid Dates, for every parser, offset and padding; every
  coordinate projected against that domain is NaN.
\<close>

theorem empty_domain:
  "domainFromLanes parse tz [] padMonths = \<lparr>dom_min = None, dom_max = None\<rparr>
   \<and> domainFromData parse tz [] padMonths = \<lparr>dom_min = None, dom_max = None\<rparr>
   \<and> x tz (dom_min (domainFromLanes parse tz [] padMonths)) pxPerMonth d = None
   \<and> x tz (dom_min (domainFromData parse tz [] padMonths)) pxPerMonth d = None"
  by (simp add: domainFromLanes_def domainFromData_def Object_values_def resolve_empty x_None)

subsection \<open>C1: the scale is monotone\<close>


subsection \<open>C2: the domain contains every item\<close>

text \<open>
  C2 says that the resolved domain starts at or before every item's start and ends at
  or after every item's end, for every non-empty collection and every padding
  \<open>\<ge> 0\<close>. \<^verbatim>\<open>startOfYear\<close> and \<^verbatim>\<open>endOfYear\<close> build their dates with
  \<^verbatim>\<open>new Date(d.getFullYear(), ...)\<close>, which reads the years 0 to 99 as 1900 to 1999,
  while the parser and \<^verbatim>\<open>addMonths\<close> keep such a year as it is. The code fails the claim
  at the input evaluated here: \<^verbatim>\<open>Timeline.tsx\<close> with its default padding of one month
  on one point event on 15 June 50. The start of the year of that date comes out as
  1 January 1950, and the domain starts on 1 December 1949, after the event.
\<close>

theorem domain_contains_items_fails:
  "domainFromData parseDateOnly 0 year50_items DEFAULTS_padMonths
     = \<lparr>dom_min = Some (- 633830400000), dom_max = Some (- 596937600001)\<rparr>
   \<and> map (\<lambda>it. toDate parseDateOnly (start it)) year50_items = [Some (- 60575040000000)]
   \<and> getFullYear 0 (Some (- 60575040000000)) = Some 50
   \<and> getFullYear 0 (startOfYear 0 (Some (- 60575040000000))) = Some 1950
   \<and> getFullYear 0 (addMonths 0 (Some (- 60575040000000)) (- 1)) = Some 50
   \<and> \<not> (- 633830400000 \<le> (- 60575040000000 :: int))"
proof -
  have "domainFromData parseDateOnly 0 year50_items DEFAULTS_padMonths
     = \<lparr>dom_min = Some (- 633830400000), dom_max = Some (- 596937600001)\<rparr>"
    by code_simp
  moreover have "map (\<lambda>it. toDate parseDateOnly (start it)) year50_items = [Some (- 60575040000000)]"
    by code_simp
  moreover have "getFullYear 0 (Some (- 60575040000000)) = Some 50"
    "getFullYear 0 (startOfYear 0 (Some (- 60575040000000))) = Some 1950"
    "getFullYear 0 (addMonths 0 (Some (- 60575040000000)) (- 1)) = Some 50"
    by code_simp+
  ultimately show ?thesis by simp
qed

text \<open>
  Where no date lies in the years 0 to 99 the domain does contain every item, in the
  resolver of \<^verbatim>\<open>Timeline.tsx\<close> and in the resolver over lanes of the other two files: for
  every padding \<open>\<ge> 0\<close>, if the resolved domain has two valid dates, every item's start
  and end (its start, when it has no end) are valid dates between the domain's minimum
  and maximum. The domain has two valid dates when the collection is not empty and its
  dates are valid and well inside the range of time values (lemma \<open>resolve_defined\<close>).
\<close>

lemma domain_contains_items:
  assumes "0 \<le> padMonths"
  shows "(domainFromData parse tz data padMonths = \<lparr>dom_min = Some lo, dom_max = Some hi\<rparr>
          \<and> (\<forall>it\<in>set data. \<forall>d\<in>set (itemDates parse it). plainDate tz d)
          \<longrightarrow> (\<forall>it\<in>set data. \<exists>s e.
                 toDate parse (start it) = Some s
               \<and> (if truthy (end' it) then toDate_opt parse (end' it) else toDate parse (start it)) = Some e
               \<and> lo \<le> s \<and> e \<le> hi))
       \<and> (domainFromLanes parse tz ldata padMonths = \<lparr>dom_min = Some lo', dom_max = Some hi'\<rparr>
          \<and> (\<forall>l\<in>set (Object_values ldata). \<forall>it\<in>set (items l). \<forall>d\<in>set (laneItemDates parse it). plainDate tz d)
          \<longrightarrow> (\<forall>l\<in>set (Object_values ldata). \<forall>it\<in>set (items l). \<exists>s e.
                 toDate parse (start it) = Some s \<and> toDate_opt parse (end' it) = Some e
               \<and> lo' \<le> s \<and> e \<le> hi'))"
proof (intro conjI impI ballI; elim conjE)
  fix it
  assume d: "domainFromData parse tz data padMonths = \<lparr>dom_min = Some lo, dom_max = Some hi\<rparr>"
    and p: "\<forall>it\<in>set data. \<forall>d\<in>set (itemDates parse it). plainDate tz d"
    and it: "it \<in> set data"
  let ?dates = "concat (map (itemDates parse) data)"
  have res: "resolve tz ?dates padMonths = \<lparr>dom_min = Some lo, dom_max = Some hi\<rparr>"
    using d by (simp add: domainFromData_def)
  have plain: "\<forall>t. Some t \<in> set ?dates \<longrightarrow> plainYear tz t"
    using p by (auto simp add: plainDate_Some[symmetric])
  have b: "\<forall>d\<in>set ?dates. \<exists>t. d = Some t \<and> lo \<le> t \<and> t \<le> hi"
    by (rule resolve_bounds[OF assms res plain])
  have "set (itemDates parse it) \<subseteq> set ?dates" using it by auto
  then have "toDate parse (start it) \<in> set ?dates"
    and "(if truthy (end' it) then toDate_opt parse (end' it) else toDate parse (start it)) \<in> set ?dates"
    by (auto simp add: itemDates_def)
  with b show "\<exists>s e.
           toDate parse (start it) = Some s
         \<and> (if truthy (end' it) then toDate_opt parse (end' it) else toDate parse (start it)) = Some e
         \<and> lo \<le> s \<and> e \<le> hi"
    by (metis (no_types, lifting))
next
  fix l it
  assume d: "domainFromLanes parse tz ldata padMonths = \<lparr>dom_min = Some lo', dom_max = Some hi'\<rparr>"
    and p: "\<forall>l\<in>set (Object_values ldata). \<forall>it\<in>set (items l). \<forall>d\<in>set (laneItemDates parse it). plainDate tz d"
    and l: "l \<in> set (Object_values ldata)" and it: "it \<in> set (items l)"
  let ?dates = "concat (map (\<lambda>l. concat (map (laneItemDates parse) (items l))) (Object_values ldata))"
  have res: "resolve tz ?dates padMonths = \<lparr>dom_min = Some lo', dom_max = Some hi'\<rparr>"
    using d by (simp add: domainFromLanes_def)
  have plain: "\<forall>t. Some t \<in> set ?dates \<longrightarrow> plainYear tz t"
    using p by (auto simp add: plainDate_Some[symmetric])
  have b: "\<forall>d\<in>set ?dates. \<exists>t. d = Some t \<and> lo' \<le> t \<and> t \<le> hi'"
    by (rule resolve_bounds[OF assms res plain])
  have "set (laneItemDates parse it) \<subseteq> set ?dates" using l it by auto
  then have "toDate parse (start it) \<in> set ?dates" and "toDate_opt parse (end' it) \<in> set ?dates"
    by (auto simp add: laneItemDates_def)
  with b show "\<exists>s e. toDate parse (start it) = Some s \<and> toDate_opt parse (end' it) = Some e
               \<and> lo' \<le> s \<and> e \<le> hi'"
    by (metis (no_types, lifting))
qed

lemma domain_contains_items_shipped:
  "domainFromData parseDateOnly 0 DATA_flat DEFAULTS_padMonths
     = \<lparr>dom_min = Some 1448928000000, dom_max = Some 1769903999999\<rparr>
   \<and> (\<exists>s e. parseDateOnly ''2016-02-01'' = Some s \<and> parseDateOnly ''2016-05-30'' = Some e
        \<and> 1448928000000 \<le> s \<and> e \<le> 1769903999999)
   \<and> domainFromLanes parseDateOnly 0 DATA PAD_MONTHS
     = \<lparr>dom_min = Some 1451606400000, dom_max = Some 1767225599999\<rparr>
   \<and> (\<exists>s e. parseDateOnly ''2020-05-01'' = Some s \<and> parseDateOnly ''2022-08-30'' = Some e
        \<and> 1451606400000 \<le> s \<and> e \<le> 1767225599999)"
proof -
  have d: "domainFromData parseDateOnly 0 DATA_flat DEFAULTS_padMonths
     = \<lparr>dom_min = Some 1448928000000, dom_max = Some 1769903999999\<rparr>"
    and d': "domainFromLanes parseDateOnly 0 DATA PAD_MONTHS
     = \<lparr>dom_min = Some 1451606400000, dom_max = Some 1767225599999\<rparr>"
    by code_simp+
  have p: "\<forall>it\<in>set DATA_flat. \<forall>d\<in>set (itemDates parseDateOnly it). plainDate 0 d"
    by code_simp
  have pad: "0 \<le> DEFAULTS_padMonths" and pad': "0 \<le> PAD_MONTHS"
    by (simp_all add: DEFAULTS_padMonths_def PAD_MONTHS_def)
  have i: "mkFlat ''a'' ''ViLLE Team'' ''2016-02-01'' (Some ''2016-05-30'') ''Work'' \<in> set DATA_flat"
    by (simp add: DATA_flat_def)
  have i': "\<exists>l\<in>set (Object_values DATA).
      mkItem ''Identio'' ''2020-05-01'' ''2022-08-30'' ''#07001f'' None None \<in> set (items l)"
    by (simp add: DATA_def Object_values_def)
  have "\<forall>it\<in>set DATA_flat. \<exists>s e.
                 toDate parseDateOnly (start it) = Some s
               \<and> (if truthy (end' it) then toDate_opt parseDateOnly (end' it) else toDate parseDateOnly (start it)) = Some e
               \<and> 1448928000000 \<le> s \<and> e \<le> 1769903999999"
    using domain_contains_items[OF pad, where parse = parseDateOnly and tz = 0 and data = DATA_flat
        and lo = 1448928000000 and hi = 1769903999999] d p
    by blast
  from this i
  have 1: "\<exists>s e. parseDateOnly ''2016-02-01'' = Some s \<and> parseDateOnly ''2016-05-30'' = Some e
        \<and> 1448928000000 \<le> s \<and> e \<le> 1769903999999"
    by (auto simp add: mkFlat_def truthy_def toDate_opt_def toDate_def)
  have "\<forall>l\<in>set (Object_values DATA). \<forall>it\<in>set (items l). \<exists>s e.
                 toDate parseDateOnly (start it) = Some s \<and> toDate_opt parseDateOnly (end' it) = Some e
               \<and> 1451606400000 \<le> s \<and> e \<le> 1767225599999"
    using domain_contains_items[OF pad', where parse = parseDateOnly and tz = 0 and ldata = DATA
        and lo' = 1451606400000 and hi' = 1767225599999] d' DATA_plain
    by blast
  moreover from i' obtain l where "l \<in> set (Object_values DATA)"
    and "mkItem ''Identio'' ''2020-05-01'' ''2022-08-30'' ''#07001f'' None None \<in> set (items l)"
    by blast
  ultimately have "\<exists>s e.
      toDate parseDateOnly (start (mkItem ''Identio'' ''2020-05-01'' ''2022-08-30'' ''#07001f'' None None)) = Some s
    \<and> toDate_opt parseDateOnly (end' (mkItem ''Identio'' ''2020-05-01'' ''2022-08-30'' ''#07001f'' None None)) = Some e
    \<and> 1451606400000 \<le> s \<and> e \<le> 1767225599999"
    by blast
  then have 2: "\<exists>s e. parseDateOnly ''2020-05-01'' = Some s \<and> parseDateOnly ''2022-08-30'' = Some e
        \<and> 1451606400000 \<le> s \<and> e \<le> 1767225599999"
    by (simp add: mkItem_def toDate_opt_def toDate_def)
  from d 1 d' 2 show ?thesis by simp
qed

subsection \<open>C10: the domain minimum is the origin of the scale\<close>

text \<open>
  C10 says that the resolved minimum is the first instant of a month, that it is
  projected to 0, and that no date at or after it is projected to a negative
  coordinate, for every non-empty collection and every padding \<open>\<ge> 0\<close>. The minimum is
  the first instant of a month, but the scale takes the start of the month of the
  minimum through the Date constructor again, which reads a year from 0 to 99 as
  1900 + year. The code fails the claim at the input evaluated here: the resolver over
  lanes with five months of padding (the padding of \<^verbatim>\<open>part_000\<close>) on one interval in the
  year 100. The domain starts on 1 August 99, the scale takes 1 August 1999 as the start
  of that month, and the minimum is projected to a negative coordinate.
\<close>

theorem domain_min_is_origin_fails:
  "domainFromLanes parseDateOnly 0 year100_lanes PAD_MONTHS_part
     = \<lparr>dom_min = Some (- 59024678400000), dom_max = Some (- 58966876800001)\<rparr>
   \<and> getFullYear 0 (Some (- 59024678400000)) = Some 99
   \<and> startOfMonth 0 (Some (- 59024678400000)) = Some 933465600000
   \<and> getFullYear 0 (Some 933465600000) = Some 1999
   \<and> x 0 (Some (- 59024678400000)) PX_PER_MONTH (Some (- 59024678400000)) = Some (- (9715440 / 31))
   \<and> \<not> (0 \<le> (- (9715440 / 31) :: real))"
proof -
  have "startOfMonth 0 (Some (- 59024678400000)) = Some 933465600000"
    using year100_months by (simp add: startOfMonth_Some TimeClip_in)
  moreover have "x 0 (Some (- 59024678400000)) PX_PER_MONTH (Some (- 59024678400000)) = Some (- (9715440 / 31))"
    using x_eval[OF year100_months(1) year100_months(1) year100_months(2) year100_months(2) year100_months(3)]
    by (simp add: PX_PER_MONTH_def)
  moreover have "getFullYear 0 (Some (- 59024678400000)) = Some 99"
    "getFullYear 0 (Some 933465600000) = Some 1999"
    by code_simp+
  ultimately show ?thesis using year100_domain by simp
qed

text \<open>
  Where neither a date of an item nor the resolved minimum lies in the years 0 to 99 the
  minimum is the origin: for every padding \<open>\<ge> 0\<close> and every scale factor \<open>\<ge> 0\<close>, if
  the resolved domain has two valid dates, the minimum is the start of its own month, it
  is projected to exactly 0, and every valid date at or after it whose local year is
  outside 0 to 99 and whose projection is a number is projected to a coordinate \<open>\<ge> 0\<close>.
\<close>

lemma domain_min_is_origin:
  assumes "0 \<le> padMonths" and "0 \<le> pxPerMonth"
    and "domainFromLanes parse tz data padMonths = \<lparr>dom_min = Some lo, dom_max = Some hi\<rparr>"
    and "\<forall>l\<in>set (Object_values data). \<forall>it\<in>set (items l). \<forall>d\<in>set (laneItemDates parse it). plainDate tz d"
    and "plainYear tz lo"
  shows "startOfMonth tz (Some lo) = Some lo
       \<and> x tz (Some lo) pxPerMonth (Some lo) = Some 0
       \<and> (\<forall>t v. lo \<le> t \<and> plainYear tz t \<and> x tz (Some lo) pxPerMonth (Some t) = Some v \<longrightarrow> 0 \<le> v)"
proof -
  let ?dates = "concat (map (\<lambda>l. concat (map (laneItemDates parse) (items l))) (Object_values data))"
  have res: "resolve tz ?dates padMonths = \<lparr>dom_min = Some lo, dom_max = Some hi\<rparr>"
    using assms(3) by (simp add: domainFromLanes_def)
  have plain: "\<forall>t. Some t \<in> set ?dates \<longrightarrow> plainYear tz t"
    using assms(4) by (auto simp add: plainDate_Some[symmetric])
  from assms(1) res plain obtain k where
    lo: "lo = firstInstant k - tz" and nx: "TimeClip (firstInstant (k + 1) - tz) \<noteq> None"
    by (rule resolve_origin)
  have k: "monthIndex (lo + tz) = k" by (simp add: lo monthIndex_firstInstant)
  have c: "ctorMonth (monthIndex (lo + tz)) = k" "ctorMonth k = k"
    using ctorMonth_plain[OF assms(5)] k by simp_all
  have v: "TimeClip (firstInstant k - tz) = Some (firstInstant k - tz)"
    using resolve_valid(1)[OF res] by (simp add: lo)
  have 1: "startOfMonth tz (Some lo) = Some lo"
    using v by (simp add: startOfMonth_Some c) (simp add: lo)
  have 2: "x tz (Some lo) pxPerMonth (Some lo) = Some 0"
    using v nx by (simp add: x_value[OF assms(5)] c k) (simp add: lo position_firstInstant)
  have 3: "0 \<le> v" if "lo \<le> t" "plainYear tz t" "x tz (Some lo) pxPerMonth (Some t) = Some v" for t v
  proof -
    have "v = (position (t + tz) - real_of_int k) * pxPerMonth"
      using that(3) by (simp add: x_value[OF that(2)] c split: if_splits)
    moreover have "position (lo + tz) \<le> position (t + tz)"
      using that(1) by (intro position_mono) simp
    then have "real_of_int k \<le> position (t + tz)"
      by (simp add: lo position_firstInstant)
    ultimately show ?thesis using assms(2) by simp
  qed
  from 1 2 3 show ?thesis by blast
qed

lemma domain_min_is_origin_shipped:
  "domainFromLanes parseDateOnly 0 DATA PAD_MONTHS_part
     = \<lparr>dom_min = Some 1438387200000, dom_max = Some 1780271999999\<rparr>
   \<and> startOfMonth 0 (Some 1438387200000) = Some 1438387200000
   \<and> x 0 (Some 1438387200000) PX_PER_MONTH (Some 1438387200000) = Some 0
   \<and> x 0 (Some 1438387200000) PX_PER_MONTH (Some 1454284800000) = Some 84
   \<and> (0 :: real) \<le> 84"
proof -
  have d: "domainFromLanes parseDateOnly 0 DATA PAD_MONTHS_part
     = \<lparr>dom_min = Some 1438387200000, dom_max = Some 1780271999999\<rparr>"
    by code_simp
  have pl: "plainYear 0 1438387200000" "plainYear 0 1454284800000"
    by code_simp+
  have m: "ctorMonth (monthIndex (1438387200000 + 0)) = 24187"
    "ctorMonth (monthIndex (1454284800000 + 0)) = 24193"
    and f: "firstInstant 24187 = 1438387200000"
    "firstInstant 24193 = 1454284800000" "firstInstant (24193 + 1) = 1456790400000"
    by code_simp+
  have v: "x 0 (Some 1438387200000) PX_PER_MONTH (Some 1454284800000) = Some 84"
    using x_eval[OF m(1) m(2) f(1) f(2) f(3)] by (simp add: PX_PER_MONTH_def)
  have pad: "0 \<le> PAD_MONTHS_part" and ppm: "0 \<le> PX_PER_MONTH"
    by (simp_all add: PAD_MONTHS_part_def PX_PER_MONTH_def)
  note t = domain_min_is_origin[OF pad ppm d DATA_plain pl(1)]
  from t have "startOfMonth 0 (Some 1438387200000) = Some 1438387200000"
    and "x 0 (Some 1438387200000) PX_PER_MONTH (Some 1438387200000) = Some 0"
    by simp_all
  moreover from t pl(2) v have "(0 :: real) \<le> 84" by force
  ultimately show ?thesis using d v by simp
qed

subsection \<open>C8: the width of a bar\<close>



subsection \<open>C4: an interval whose end precedes its start\<close>

text \<open>
  C4 says that an item whose end precedes its start is corrected by swapping the two or
  by clamping the end to the start, and that no bar has a negative width. No component
  has such a correction: both dates enter the domain as they are, and the only guard is
  the floor of 2 on the width. The counterexample is \<^verbatim>\<open>Timeline.tsx\<close> with its default
  properties on one item from 30 May 2016 back to 1 February 2015: its domain starts on
  1 December 2014 and its rectangle starts at 11120 / 31 and is 2 wide; the item with its
  end clamped to its start has a domain that starts on 1 December 2015 and a rectangle
  that starts at 3680 / 31, and the item with the two dates swapped a rectangle that
  starts at 40 and is 9880 / 31 wide.
\<close>

theorem inverted_interval_counterexample:
  "map (\<lambda>g. map shape (item_groups g))
     (lane_groups (SvgTimeline parseDateOnly 0 [inverted_item] [''Work'', ''School'', ''Volunteering''] DEFAULTS_laneHeight
        DEFAULTS_laneGap DEFAULTS_pxPerMonth DEFAULTS_padMonths))
     = [[Rect (Some (11120 / 31)) 22 (Some 2) 20], [], []]
   \<and> map (\<lambda>g. map shape (item_groups g))
     (lane_groups (SvgTimeline parseDateOnly 0 [inverted_item\<lparr>end' := Some (start inverted_item)\<rparr>]
        [''Work'', ''School'', ''Volunteering''] DEFAULTS_laneHeight DEFAULTS_laneGap DEFAULTS_pxPerMonth DEFAULTS_padMonths))
     = [[Rect (Some (3680 / 31)) 22 (Some 2) 20], [], []]
   \<and> map (\<lambda>g. map shape (item_groups g))
     (lane_groups (SvgTimeline parseDateOnly 0
        [inverted_item\<lparr>start := Str ''2015-02-01'', end' := Some (start inverted_item)\<rparr>]
        [''Work'', ''School'', ''Volunteering''] DEFAULTS_laneHeight DEFAULTS_laneGap DEFAULTS_pxPerMonth DEFAULTS_padMonths))
     = [[Rect (Some 40) 22 (Some (9880 / 31)) 20], [], []]
   \<and> (11120 / 31 :: real) \<noteq> 3680 / 31 \<and> (11120 / 31 :: real) \<noteq> 40"
proof -
  let ?c = "inverted_item\<lparr>end' := Some (start inverted_item)\<rparr>"
  let ?s = "inverted_item\<lparr>start := Str ''2015-02-01'', end' := Some (start inverted_item)\<rparr>"
  have d: "dom_min (domainFromData parseDateOnly 0 [inverted_item] DEFAULTS_padMonths) = Some 1417392000000"
    "dom_min (domainFromData parseDateOnly 0 [?c] DEFAULTS_padMonths) = Some 1448928000000"
    "dom_min (domainFromData parseDateOnly 0 [?s] DEFAULTS_padMonths) = Some 1417392000000"
    by code_simp+
  have l: "lane inverted_item = ''Work''" "lane ?c = ''Work''" "lane ?s = ''Work''"
    by (simp_all add: inverted_item_def mkFlat_def)
  have s: "toDate parseDateOnly (start inverted_item) = Some 1464566400000"
    "toDate parseDateOnly (start ?c) = Some 1464566400000"
    "toDate parseDateOnly (start ?s) = Some 1422748800000"
    "toDate parseDateOnly (Str ''2015-02-01'') = Some 1422748800000"
    and e: "endDate parseDateOnly inverted_item = Some (Some 1422748800000)"
    "endDate parseDateOnly ?c = Some (Some 1464566400000)"
    "endDate parseDateOnly ?s = Some (Some 1464566400000)"
    by code_simp+
  have m: "ctorMonth (monthIndex (1417392000000 + 0)) = 24179"
    "ctorMonth (monthIndex (1448928000000 + 0)) = 24191"
    "ctorMonth (monthIndex (1464566400000 + 0)) = 24196"
    "ctorMonth (monthIndex (1422748800000 + 0)) = 24181"
    and f: "firstInstant 24179 = 1417392000000" "firstInstant 24191 = 1448928000000"
    "firstInstant 24196 = 1462060800000" "firstInstant (24196 + 1) = 1464739200000"
    "firstInstant 24181 = 1422748800000" "firstInstant (24181 + 1) = 1425168000000"
    by code_simp+
  have a: "x 0 (Some 1417392000000) DEFAULTS_pxPerMonth (Some 1464566400000) = Some (11120 / 31)"
    using x_eval[OF m(1) m(3) f(1) f(3) f(4)] by (simp add: DEFAULTS_pxPerMonth_def)
  have b: "x 0 (Some 1417392000000) DEFAULTS_pxPerMonth (Some 1422748800000) = Some 40"
    using x_eval[OF m(1) m(4) f(1) f(5) f(6)] by (simp add: DEFAULTS_pxPerMonth_def)
  have c: "x 0 (Some 1448928000000) DEFAULTS_pxPerMonth (Some 1464566400000) = Some (3680 / 31)"
    using x_eval[OF m(2) m(3) f(2) f(3) f(4)] by (simp add: DEFAULTS_pxPerMonth_def)
  have 1: "map (\<lambda>g. map shape (item_groups g))
     (lane_groups (SvgTimeline parseDateOnly 0 [inverted_item] [''Work'', ''School'', ''Volunteering''] DEFAULTS_laneHeight
        DEFAULTS_laneGap DEFAULTS_pxPerMonth DEFAULTS_padMonths))
     = [[Rect (Some (11120 / 31)) 22 (Some 2) 20], [], []]"
    by (simp add: SvgTimeline_shapes l d itemGroup_bar[OF e(1)] s a b Math_max2_sub
        DEFAULTS_laneHeight_def)
  have 2: "map (\<lambda>g. map shape (item_groups g))
     (lane_groups (SvgTimeline parseDateOnly 0 [?c] [''Work'', ''School'', ''Volunteering''] DEFAULTS_laneHeight
        DEFAULTS_laneGap DEFAULTS_pxPerMonth DEFAULTS_padMonths))
     = [[Rect (Some (3680 / 31)) 22 (Some 2) 20], [], []]"
    by (simp add: SvgTimeline_shapes l d itemGroup_bar[OF e(2)] s c Math_max2_sub
        DEFAULTS_laneHeight_def)
  have 3: "map (\<lambda>g. map shape (item_groups g))
     (lane_groups (SvgTimeline parseDateOnly 0 [?s] [''Work'', ''School'', ''Volunteering''] DEFAULTS_laneHeight
        DEFAULTS_laneGap DEFAULTS_pxPerMonth DEFAULTS_padMonths))
     = [[Rect (Some 40) 22 (Some (9880 / 31)) 20], [], []]"
    by (simp add: SvgTimeline_shapes l d itemGroup_bar[OF e(3)] s a b Math_max2_sub
        DEFAULTS_laneHeight_def)
  from 1 2 3 show ?thesis by simp
qed

text \<open>
  C4 as amended: no component changes the dates of an item. For every item with an end,
  whichever of the two dates is the earlier, both enter the domain as they are given,
  the rectangle starts at the projection of the start, and its width is
  \<^verbatim>\<open>Math.max(2, x(end) - x(start))\<close>. And for every item whatsoever, in all three
  components, the width of the rectangle is NaN or at least 2, never negative.
\<close>

theorem inverted_interval:
  "(truthy (end' it) \<longrightarrow>
      domainFromData parse tz (it # data) padMonths
        = resolve tz (toDate parse (start it) # toDate_opt parse (end' it)
                        # concat (map (itemDates parse) data)) padMonths
    \<and> shape (itemGroup parse tz dmin pxPerMonth laneHeight it)
        = Rect (x tz dmin pxPerMonth (toDate parse (start it))) (laneHeight / 2 - 10)
            (Math_max2 2 (js_sub (x tz dmin pxPerMonth (toDate_opt parse (end' it)))
                                 (x tz dmin pxPerMonth (toDate parse (start it))))) 20
    \<and> shape (railItemGroup parse tz dmin it)
        = Rect (x tz dmin PX_PER_MONTH (toDate parse (start it)))
            ((if rail it = Some 1 then LANE_HEIGHT + RAIL_OFFSET else LANE_HEIGHT / 2) - 20)
            (Math_max2 2 (js_sub (x tz dmin PX_PER_MONTH (toDate_opt parse (end' it)))
                                 (x tz dmin PX_PER_MONTH (toDate parse (start it))))) 40
    \<and> shape (partItemGroup parse tz dmin it)
        = Rect (x tz dmin PX_PER_MONTH (toDate parse (start it))) (LANE_HEIGHT / 2 - 20)
            (Math_max2 2 (js_sub (x tz dmin PX_PER_MONTH (toDate_opt parse (end' it)))
                                 (x tz dmin PX_PER_MONTH (toDate parse (start it))))) 40)
   \<and> (\<forall>a b w h. shape (itemGroup parse' tz' dmin' pxPerMonth' laneHeight' it') = Rect a b (Some w) h
          \<or> shape (railItemGroup parse' tz' dmin' it') = Rect a b (Some w) h
          \<or> shape (partItemGroup parse' tz' dmin' it') = Rect a b (Some w) h
        \<longrightarrow> 2 \<le> w)"
proof -
  have 1: "domainFromData parse tz (it # data) padMonths
        = resolve tz (toDate parse (start it) # toDate_opt parse (end' it)
                        # concat (map (itemDates parse) data)) padMonths"
    if "truthy (end' it)"
    using that by (simp add: domainFromData_def itemDates_def)
  have 2: "shape (itemGroup parse tz dmin pxPerMonth laneHeight it)
        = Rect (x tz dmin pxPerMonth (toDate parse (start it))) (laneHeight / 2 - 10)
            (Math_max2 2 (js_sub (x tz dmin pxPerMonth (toDate_opt parse (end' it)))
                                 (x tz dmin pxPerMonth (toDate parse (start it))))) 20"
    if "truthy (end' it)"
    by (simp add: itemGroup_bar[OF endDate_cases(2)[OF that]])
  have 3: "shape (railItemGroup parse tz dmin it)
        = Rect (x tz dmin PX_PER_MONTH (toDate parse (start it)))
            ((if rail it = Some 1 then LANE_HEIGHT + RAIL_OFFSET else LANE_HEIGHT / 2) - 20)
            (Math_max2 2 (js_sub (x tz dmin PX_PER_MONTH (toDate_opt parse (end' it)))
                                 (x tz dmin PX_PER_MONTH (toDate parse (start it))))) 40"
    if "truthy (end' it)"
    by (simp add: railItemGroup_bar[OF endDate_cases(2)[OF that]])
  have 4: "shape (partItemGroup parse tz dmin it)
        = Rect (x tz dmin PX_PER_MONTH (toDate parse (start it))) (LANE_HEIGHT / 2 - 20)
            (Math_max2 2 (js_sub (x tz dmin PX_PER_MONTH (toDate_opt parse (end' it)))
                                 (x tz dmin PX_PER_MONTH (toDate parse (start it))))) 40"
    if "truthy (end' it)"
    by (simp add: partItemGroup_bar[OF endDate_cases(2)[OF that]])
  have 5: "2 \<le> w"
    if "shape (itemGroup parse' tz' dmin' pxPerMonth' laneHeight' it') = Rect a b (Some w) h
        \<or> shape (railItemGroup parse' tz' dmin' it') = Rect a b (Some w) h
        \<or> shape (partItemGroup parse' tz' dmin' it') = Rect a b (Some w) h" for a b w h
    using that
    by (cases "endDate parse' it'")
       (auto simp add: itemGroup_def railItemGroup_def partItemGroup_def Let_def dest: Math_max2_floor)
  from 1 2 3 4 5 show ?thesis by blast
qed

theorem inverted_interval_witness:
  "shape (itemGroup parseDateOnly 0 (Some 1417392000000) 20 64 inverted_item)
     = Rect (Some (11120 / 31)) 22 (Some 2) 20
   \<and> domainFromData parseDateOnly 0 [inverted_item] 1
     = resolve 0 [parseDateOnly ''2016-05-30'', parseDateOnly ''2015-02-01''] 1
   \<and> (2 :: real) \<le> 2"
proof -
  have t: "truthy (end' inverted_item)"
    and s: "toDate parseDateOnly (start inverted_item) = Some 1464566400000"
    "toDate parseDateOnly (start inverted_item) = parseDateOnly ''2016-05-30''"
    and e: "toDate_opt parseDateOnly (end' inverted_item) = Some 1422748800000"
    "toDate_opt parseDateOnly (end' inverted_item) = parseDateOnly ''2015-02-01''"
    by code_simp+
  have m: "ctorMonth (monthIndex (1417392000000 + 0)) = 24179"
    "ctorMonth (monthIndex (1464566400000 + 0)) = 24196"
    "ctorMonth (monthIndex (1422748800000 + 0)) = 24181"
    and f: "firstInstant 24179 = 1417392000000"
    "firstInstant 24196 = 1462060800000" "firstInstant (24196 + 1) = 1464739200000"
    "firstInstant 24181 = 1422748800000" "firstInstant (24181 + 1) = 1425168000000"
    by code_simp+
  have a: "x 0 (Some 1417392000000) 20 (toDate parseDateOnly (start inverted_item)) = Some (11120 / 31)"
    unfolding s(1) using x_eval[OF m(1) m(2) f(1) f(2) f(3)] by simp
  have b: "x 0 (Some 1417392000000) 20 (toDate_opt parseDateOnly (end' inverted_item)) = Some 40"
    unfolding e(1) using x_eval[OF m(1) m(3) f(1) f(4) f(5)] by simp
  note th = inverted_interval[where it = inverted_item and parse = parseDateOnly and tz = 0
      and dmin = "Some 1417392000000" and pxPerMonth = 20 and laneHeight = 64 and data = "[]"
      and padMonths = 1 and parse' = parseDateOnly and tz' = 0 and dmin' = "Some 1417392000000"
      and pxPerMonth' = 20 and laneHeight' = 64 and it' = inverted_item]
  from th t
  have "shape (itemGroup parseDateOnly 0 (Some 1417392000000) 20 64 inverted_item)
          = Rect (x 0 (Some 1417392000000) 20 (toDate parseDateOnly (start inverted_item))) (64 / 2 - 10)
              (Math_max2 2 (js_sub (x 0 (Some 1417392000000) 20 (toDate_opt parseDateOnly (end' inverted_item)))
                                   (x 0 (Some 1417392000000) 20 (toDate parseDateOnly (start inverted_item))))) 20"
    by blast
  then have r: "shape (itemGroup parseDateOnly 0 (Some 1417392000000) 20 64 inverted_item)
          = Rect (Some (11120 / 31)) 22 (Some 2) 20"
    unfolding a b by (simp add: Math_max2_sub)
  from th r have w: "(2 :: real) \<le> 2" by blast
  from th t
  have "domainFromData parseDateOnly 0 [inverted_item] 1
        = resolve 0 [toDate parseDateOnly (start inverted_item),
                     toDate_opt parseDateOnly (end' inverted_item)] 1"
    by simp
  with r w show ?thesis by (simp add: s(2)[symmetric] e(2)[symmetric])
qed

subsection \<open>C6: points and bars\<close>

text \<open>
  C6 says that an item without an end is drawn as a point and never as a bar, and an
  item with an end as a bar. \<^verbatim>\<open>Timeline.tsx\<close> tests \<^verbatim>\<open>it.end\<close> for truthiness, so an
  end that is present but is the empty string is drawn as a point too: the
  counterexample. (The other two components declare \<^verbatim>\<open>end\<close> as a required string and
  have no circle.)
\<close>

theorem point_or_bar_counterexample:
  "end' blank_end_item = Some (Str [])
   \<and> shape (itemGroup parseDateOnly 0 (Some 1451606400000) DEFAULTS_pxPerMonth DEFAULTS_laneHeight
        blank_end_item) = Circle 0 32 6"
  by (simp add: blank_end_item_def mkFlat_def itemGroup_point endDate_def truthy_def
      DEFAULTS_laneHeight_def)

text \<open>
  C6 as amended: in \<^verbatim>\<open>Timeline.tsx\<close> an item whose end is absent, or is the empty
  string, is drawn as a circle (of radius 6, centred in the lane) and not as a
  rectangle; an item whose end is a Date or a non-empty string is drawn as a rectangle.
  The other two components draw a rectangle for every item.
\<close>

theorem point_or_bar:
  "(end' it = None \<or> end' it = Some (Str []) \<longrightarrow>
      shape (itemGroup parse tz dmin pxPerMonth laneHeight it) = Circle 0 (laneHeight / 2) 6)
   \<and> ((\<exists>d. end' it = Some (Obj d)) \<or> (\<exists>c cs. end' it = Some (Str (c # cs))) \<longrightarrow>
      (\<exists>a b w h. shape (itemGroup parse tz dmin pxPerMonth laneHeight it) = Rect a b w h))
   \<and> (\<exists>a b w h. shape (railItemGroup parse tz dmin it) = Rect a b w h)
   \<and> (\<exists>a b w h. shape (partItemGroup parse tz dmin it) = Rect a b w h)"
proof -
  have 1: "shape (itemGroup parse tz dmin pxPerMonth laneHeight it) = Circle 0 (laneHeight / 2) 6"
    if "end' it = None \<or> end' it = Some (Str [])"
    using that by (auto simp add: itemGroup_point endDate_def truthy_def)
  have 2: "\<exists>a b w h. shape (itemGroup parse tz dmin pxPerMonth laneHeight it) = Rect a b w h"
    if "(\<exists>d. end' it = Some (Obj d)) \<or> (\<exists>c cs. end' it = Some (Str (c # cs)))"
  proof -
    from that have "truthy (end' it)" by (auto simp add: truthy_def)
    then show ?thesis by (simp add: itemGroup_bar[OF endDate_cases(2)])
  qed
  have 3: "\<exists>a b w h. shape (railItemGroup parse tz dmin it) = Rect a b w h"
    by (simp add: railItemGroup_def Let_def)
  have 4: "\<exists>a b w h. shape (partItemGroup parse tz dmin it) = Rect a b w h"
    by (simp add: partItemGroup_def Let_def)
  from 1 2 3 4 show ?thesis by blast
qed

theorem point_or_bar_witness:
  "shape (itemGroup parseDateOnly 0 (Some 1451606400000) 20 64
            (mkFlat ''a'' ''Launch'' ''2016-05-30'' None ''Work'')) = Circle 0 32 6
   \<and> (\<exists>a b w h. shape (itemGroup parseDateOnly 0 (Some 1451606400000) 20 64
            (mkFlat ''a'' ''ViLLE Team'' ''2016-02-01'' (Some ''2016-05-30'') ''Work'')) = Rect a b w h)"
  using point_or_bar[of "mkFlat ''a'' ''Launch'' ''2016-05-30'' None ''Work''"
          parseDateOnly 0 "Some 1451606400000" 20 64]
        point_or_bar[of "mkFlat ''a'' ''ViLLE Team'' ''2016-02-01'' (Some ''2016-05-30'') ''Work''"
          parseDateOnly 0 "Some 1451606400000" 20 64]
  by (simp add: mkFlat_def)

subsection \<open>C9: lanes and rows\<close>

text \<open>
  C9 says that, for every ordered list of lanes, the top of a lane is the sum of the
  heights of the lanes before it (plus a fixed gap, below the ruler), and that the
  vertical centre of an item is the lane's top plus half the row height on rail 0, or
  plus the row height and the rail offset on rail 1. The component with rails, the
  only one that reads \<^verbatim>\<open>rail\<close>, does not compute the top of a lane: it takes the field
  \<^verbatim>\<open>yTop\<close> of the lane as given. The counterexample is three lanes that all give the
  ruler's height as their top: all three are drawn at 40, the second not at 40 + 120.
\<close>

theorem lane_layout_counterexample:
  "(\<exists>dr. SvgTimeline_rails parseDateOnly 0 flat_lanes = Some dr
          \<and> map lane_top (lane_groups dr) = [40, 40, 40])
   \<and> map height (Object_values flat_lanes) = [120, 60, 60]
   \<and> (40 :: real) \<noteq> 40 + 120"
proof -
  have "railsHeight flat_lanes = Some (RULER_HEIGHT + LANE_HEIGHT * 2 + LANE_HEIGHT + LANE_HEIGHT)"
    by (simp add: railsHeight_def flat_lanes_def)
  then obtain dr where dr: "SvgTimeline_rails parseDateOnly 0 flat_lanes = Some dr"
    using SvgTimeline_rails_Some by blast
  have "map lane_top (lane_groups dr) = [40, 40, 40]"
    by (simp add: SvgTimeline_rails_lanes[OF dr] Object_values_def flat_lanes_def RULER_HEIGHT_def)
  moreover have "map height (Object_values flat_lanes) = [120, 60, 60]"
    by (simp add: Object_values_def flat_lanes_def LANE_HEIGHT_def)
  ultimately show ?thesis using dr by simp
qed

text \<open>
  C9 as amended. In \<^verbatim>\<open>Timeline.tsx\<close>, for every list of lanes, the top of lane \<open>i\<close> is 40
  (the ruler) plus \<open>i\<close> times \<open>laneHeight + laneGap\<close>, and every item of the lane has its
  vertical centre half a lane height below the lane's top. In the component with
  rails, the top of a lane is its field \<^verbatim>\<open>yTop\<close>, and every item has its centre
  \<open>LANE_HEIGHT / 2\<close> below that top when its rail is 0 or absent, and
  \<open>LANE_HEIGHT + RAIL_OFFSET\<close> below it when its rail is 1. In the shipped data of
  that component, \<^verbatim>\<open>yTop\<close> of every lane is the ruler's height plus the heights of the
  lanes before it.
\<close>

theorem lane_layout:
  "(i < length lanes \<longrightarrow>
      lane_top (lane_groups (SvgTimeline parse tz data lanes laneHeight laneGap pxPerMonth padMonths) ! i)
        = 40 + sum_list (replicate i (laneHeight + laneGap))
    \<and> (\<forall>g\<in>set (item_groups
                   (lane_groups (SvgTimeline parse tz data lanes laneHeight laneGap pxPerMonth padMonths) ! i)).
          translate_y g + centerY (shape g) = laneHeight / 2))
   \<and> (SvgTimeline_rails parse tz ldata = Some dr \<longrightarrow>
        map lane_top (lane_groups dr) = map yTop (Object_values ldata)
      \<and> (\<forall>j < length ldata. \<forall>k < length (items (snd (ldata ! j))).
           translate_y (item_groups (lane_groups dr ! j) ! k)
           + centerY (shape (item_groups (lane_groups dr ! j) ! k))
           = (if rail (items (snd (ldata ! j)) ! k) = Some 1 then LANE_HEIGHT + RAIL_OFFSET
              else LANE_HEIGHT / 2)))
   \<and> map yTop (Object_values DATA)
       = map (\<lambda>n. RULER_HEIGHT + sum_list (map height (take n (Object_values DATA)))) [0..<length DATA]"
proof -
  have 1: "lane_top (lane_groups (SvgTimeline parse tz data lanes laneHeight laneGap pxPerMonth padMonths) ! i)
        = 40 + sum_list (replicate i (laneHeight + laneGap))"
    if "i < length lanes"
    by (simp add: SvgTimeline_lane[OF that] sum_list_replicate)
  have 2: "translate_y g + centerY (shape g) = laneHeight / 2"
    if i: "i < length lanes"
      and g: "g \<in> set (item_groups (lane_groups (SvgTimeline parse tz data lanes laneHeight laneGap pxPerMonth padMonths) ! i))"
    for g
  proof -
    from g obtain it where
      "g = itemGroup parse tz (dom_min (domainFromData parse tz data padMonths)) pxPerMonth laneHeight it"
      by (auto simp add: SvgTimeline_lane[OF i])
    then show ?thesis by (simp only: itemGroup_center)
  qed
  have 3: "map lane_top (lane_groups dr) = map yTop (Object_values ldata)"
    if "SvgTimeline_rails parse tz ldata = Some dr"
    by (simp add: SvgTimeline_rails_lanes[OF that] comp_def)
  have 4: "translate_y (item_groups (lane_groups dr ! j) ! k)
           + centerY (shape (item_groups (lane_groups dr ! j) ! k))
           = (if rail (items (snd (ldata ! j)) ! k) = Some 1 then LANE_HEIGHT + RAIL_OFFSET
              else LANE_HEIGHT / 2)"
    if "SvgTimeline_rails parse tz ldata = Some dr" "j < length ldata" "k < length (items (snd (ldata ! j)))"
    for j k
    using that(2,3)
    by (simp add: SvgTimeline_rails_lanes[OF that(1)] Object_values_def railItemGroup_center)
  have 5: "map yTop (Object_values DATA)
       = map (\<lambda>n. RULER_HEIGHT + sum_list (map height (take n (Object_values DATA)))) [0..<length DATA]"
    by (simp add: DATA_def Object_values_def upt_rec LANE_HEIGHT_def RULER_HEIGHT_def)
  from 1 2 3 4 5 show ?thesis by (simp (no_asm_simp))
qed

theorem lane_layout_witness:
  "lane_top (lane_groups (SvgTimeline parseDateOnly 0 DATA_flat [''Work'', ''School'', ''Volunteering'']
                            64 12 20 1) ! 2) = 192
   \<and> (\<exists>dr. SvgTimeline_rails parseDateOnly 0 DATA = Some dr
           \<and> map lane_top (lane_groups dr) = [40, 160, 220])"
proof -
  have "railsHeight DATA = Some (RULER_HEIGHT + LANE_HEIGHT * 2 + LANE_HEIGHT + LANE_HEIGHT * 2)"
    by (simp add: railsHeight_def DATA_def)
  then obtain dr where dr: "SvgTimeline_rails parseDateOnly 0 DATA = Some dr"
    using SvgTimeline_rails_Some by blast
  have i: "(2 :: nat) < length [''Work'', ''School'', ''Volunteering'']" by simp
  note a = lane_layout[where i = 2 and lanes = "[''Work'', ''School'', ''Volunteering'']"
      and parse = parseDateOnly and tz = 0 and data = DATA_flat and laneHeight = 64
      and laneGap = 12 and pxPerMonth = 20 and padMonths = 1 and ldata = DATA and dr = dr]
  from a i have "lane_top (lane_groups (SvgTimeline parseDateOnly 0 DATA_flat
      [''Work'', ''School'', ''Volunteering''] 64 12 20 1) ! 2) = 40 + sum_list (replicate 2 (64 + 12))"
    by blast
  moreover from a dr have "map lane_top (lane_groups dr) = map yTop (Object_values DATA)"
    by blast
  moreover have "map yTop (Object_values DATA) = [40, 160, 220]"
    by (simp add: DATA_def Object_values_def LANE_HEIGHT_def RULER_HEIGHT_def)
  ultimately show ?thesis using dr by (simp add: numeral_2_eq_2)
qed

subsection \<open>C5: the year ticks\<close>

text \<open>
  C5 says that there is one tick per calendar year from the year of the domain's
  minimum to the year of its maximum, in increasing order, each at the projection of
  1 January of its year, so at strictly increasing positions. Only the component with
  rails places a tick at that projection and draws a gridline there; \<^verbatim>\<open>Timeline.tsx\<close> and
  \<^verbatim>\<open>part_000\<close> place the label of the year at \<^verbatim>\<open>x(new Date(y, 0, 1)) + 100\<close>. The
  counterexample is \<^verbatim>\<open>Timeline.tsx\<close> with its default properties on its shipped data:
  1 January 2016 is projected to 20, where a point event of that day is drawn, and the
  tick of 2016 is at 120.
\<close>

theorem year_ticks_counterexample:
  "ticks (SvgTimeline parseDateOnly 0 DATA_flat [''Work'', ''School'', ''Volunteering'']
            DEFAULTS_laneHeight DEFAULTS_laneGap DEFAULTS_pxPerMonth DEFAULTS_padMonths)
     = [(2015, Some (- 120)), (2016, Some 120), (2017, Some 360), (2018, Some 600), (2019, Some 840),
        (2020, Some 1080), (2021, Some 1320), (2022, Some 1560), (2023, Some 1800), (2024, Some 2040),
        (2025, Some 2280), (2026, Some 2520)]
   \<and> dom_min (domainFromData parseDateOnly 0 DATA_flat DEFAULTS_padMonths) = Some 1448928000000
   \<and> Date_fields 0 (Some 2016) (Some 0) 1 0 0 0 0 = Some 1451606400000
   \<and> x 0 (Some 1448928000000) DEFAULTS_pxPerMonth (Some 1451606400000) = Some 20
   \<and> translate_x (itemGroup parseDateOnly 0 (Some 1448928000000) DEFAULTS_pxPerMonth DEFAULTS_laneHeight
        (mkFlat ''e'' ''New Year'' ''2016-01-01'' None ''Work'')) = Some 20
   \<and> (120 :: real) \<noteq> 20"
proof -
  have d: "domainFromData parseDateOnly 0 DATA_flat DEFAULTS_padMonths
     = \<lparr>dom_min = Some 1448928000000, dom_max = Some 1769903999999\<rparr>"
    by code_simp
  have y: "YearFromTime (1448928000000 + 0) = 2015" "YearFromTime (1769903999999 + 0) = 2026"
    "monthIndex (1448928000000 + 0) = 24191"
    and j: "Date_fields 0 (Some 2016) (Some 0) 1 0 0 0 0 = Some 1451606400000"
    by code_simp+
  have pl: "YearFromTime (1769903999999 + 0) < 0 \<or> 99 < YearFromTime (1448928000000 + 0)"
    unfolding y by simp
  have A: "\<bar>1448928000000\<bar> + 12 * (31 * msPerDay) \<le> 8640000000000000"
    and B: "\<bar>1769903999999\<bar> + 31 * msPerDay \<le> 8640000000000000"
    by (simp_all add: msPerDay_def)
  have p: "DEFAULTS_pxPerMonth = real_of_int 20" by (simp add: DEFAULTS_pxPerMonth_def)
  have t: "ticks (SvgTimeline parseDateOnly 0 DATA_flat [''Work'', ''School'', ''Volunteering'']
            DEFAULTS_laneHeight DEFAULTS_laneGap DEFAULTS_pxPerMonth DEFAULTS_padMonths)
     = [(2015, Some (- 120)), (2016, Some 120), (2017, Some 360), (2018, Some 600), (2019, Some 840),
        (2020, Some 1080), (2021, Some 1320), (2022, Some 1560), (2023, Some 1800), (2024, Some 2040),
        (2025, Some 2280), (2026, Some 2520)]"
    unfolding p flat_ticks_whole[OF d pl A B] y by (simp add: upto_rec1)
  have m: "ctorMonth (monthIndex (1448928000000 + 0)) = 24191"
    "ctorMonth (monthIndex (1451606400000 + 0)) = 24192"
    and f: "firstInstant 24191 = 1448928000000"
    "firstInstant 24192 = 1451606400000" "firstInstant (24192 + 1) = 1454284800000"
    by code_simp+
  have v: "x 0 (Some 1448928000000) DEFAULTS_pxPerMonth (Some 1451606400000) = Some 20"
    using x_eval[OF m(1) m(2) f(1) f(2) f(3)] by (simp add: DEFAULTS_pxPerMonth_def)
  have q: "toDate parseDateOnly (start (mkFlat ''e'' ''New Year'' ''2016-01-01'' None ''Work'')) = Some 1451606400000"
    "endDate parseDateOnly (mkFlat ''e'' ''New Year'' ''2016-01-01'' None ''Work'') = None"
    by code_simp+
  have w: "translate_x (itemGroup parseDateOnly 0 (Some 1448928000000) DEFAULTS_pxPerMonth DEFAULTS_laneHeight
        (mkFlat ''e'' ''New Year'' ''2016-01-01'' None ''Work'')) = Some 20"
    by (simp add: itemGroup_point[OF q(2)] q(1) v)
  from t d j v w show ?thesis by simp
qed

text \<open>
  C5 as amended. In both components, if the resolved domain has two valid dates, the
  years of the ticks are exactly the years from the year of the minimum to the year of
  the maximum, in increasing order. In the component with rails, which has no padding
  and 14 pixels per month, if every date of every item has a local year outside 0 to 99
  and no year of the domain lies in 0 to 99, the tick of year \<open>y\<close> is at
  \<^verbatim>\<open>x(new Date(y, 0, 1))\<close>, that date being the first instant of the year \<open>y\<close>, which is
  168 times the number of years since the year of the minimum; from each tick to the next
  both the year and the position increase strictly. In \<^verbatim>\<open>Timeline.tsx\<close> the tick of year
  \<open>y\<close> is at \<^verbatim>\<open>x(new Date(y, 0, 1)) + 100\<close>; if no year of the domain lies in 0 to 99, the
  minimum lies at least twelve months of 31 days and the maximum at least 31 days inside
  the range of time values, and \<open>pxPerMonth\<close> is a whole number \<open>n\<close> from 1 to 1000000,
  that position is \<open>n\<close> times the number of months from the month of the minimum to
  January of \<open>y\<close>, plus 100, and from each tick to the next both the year and the
  position increase strictly.
\<close>

theorem year_ticks:
  "(SvgTimeline_rails parse tz ldata = Some dr
      \<and> domainFromLanes parse tz ldata PAD_MONTHS = \<lparr>dom_min = Some lo, dom_max = Some hi\<rparr>
    \<longrightarrow> map fst (ticks dr) = [YearFromTime (lo + tz)..YearFromTime (hi + tz)]
       \<and> (\<forall>p\<in>set (ticks dr).
            snd p = x tz (Some lo) PX_PER_MONTH (Date_fields tz (Some (fst p)) (Some 0) 1 0 0 0 0))
       \<and> ((\<forall>l\<in>set (Object_values ldata). \<forall>it\<in>set (items l). \<forall>d\<in>set (laneItemDates parse it). plainDate tz d)
          \<and> (YearFromTime (hi + tz) < 0 \<or> 99 < YearFromTime (lo + tz))
         \<longrightarrow> (\<forall>p\<in>set (ticks dr).
                Date_fields tz (Some (fst p)) (Some 0) 1 0 0 0 0 = Some (firstInstant (12 * fst p) - tz)
              \<and> snd p = Some (168 * real_of_int (fst p - YearFromTime (lo + tz))))
            \<and> sorted_wrt (\<lambda>p q. fst p < fst q \<and> (\<exists>a b. snd p = Some a \<and> snd q = Some b \<and> a < b))
                 (ticks dr)))
   \<and> (domainFromData parse tz data padMonths = \<lparr>dom_min = Some lo', dom_max = Some hi'\<rparr>
    \<longrightarrow> map fst (ticks (SvgTimeline parse tz data lanes laneHeight laneGap pxPerMonth padMonths))
         = [YearFromTime (lo' + tz)..YearFromTime (hi' + tz)]
       \<and> (\<forall>p\<in>set (ticks (SvgTimeline parse tz data lanes laneHeight laneGap pxPerMonth padMonths)).
            snd p = js_add (x tz (Some lo') pxPerMonth (Date_fields tz (Some (fst p)) (Some 0) 1 0 0 0 0)) (Some 100))
       \<and> ((YearFromTime (hi' + tz) < 0 \<or> 99 < YearFromTime (lo' + tz))
          \<and> \<bar>lo'\<bar> + 12 * (31 * msPerDay) \<le> 8640000000000000
          \<and> \<bar>hi'\<bar> + 31 * msPerDay \<le> 8640000000000000
          \<and> pxPerMonth = real_of_int n \<and> 0 < n \<and> n \<le> 1000000
         \<longrightarrow> (\<forall>p\<in>set (ticks (SvgTimeline parse tz data lanes laneHeight laneGap pxPerMonth padMonths)).
                snd p = Some (real_of_int (n * (12 * fst p - monthIndex (lo' + tz)) + 100)))
            \<and> sorted_wrt (\<lambda>p q. fst p < fst q \<and> (\<exists>a b. snd p = Some a \<and> snd q = Some b \<and> a < b))
                 (ticks (SvgTimeline parse tz data lanes laneHeight laneGap pxPerMonth padMonths))))"
proof (intro conjI impI; (elim conjE)?)
  assume r: "SvgTimeline_rails parse tz ldata = Some dr"
    "domainFromLanes parse tz ldata PAD_MONTHS = \<lparr>dom_min = Some lo, dom_max = Some hi\<rparr>"
  note u = rails_tick_years[OF r]
  show "map fst (ticks dr) = [YearFromTime (lo + tz)..YearFromTime (hi + tz)]"
    unfolding u by (simp add: comp_def)
  show "\<forall>p\<in>set (ticks dr).
            snd p = x tz (Some lo) PX_PER_MONTH (Date_fields tz (Some (fst p)) (Some 0) 1 0 0 0 0)"
    unfolding u by auto
  assume s: "\<forall>l\<in>set (Object_values ldata). \<forall>it\<in>set (items l). \<forall>d\<in>set (laneItemDates parse it). plainDate tz d"
    "YearFromTime (hi + tz) < 0 \<or> 99 < YearFromTime (lo + tz)"
  note t = rails_ticks[OF r s]
  from t show "\<forall>p\<in>set (ticks dr).
                Date_fields tz (Some (fst p)) (Some 0) 1 0 0 0 0 = Some (firstInstant (12 * fst p) - tz)
              \<and> snd p = Some (168 * real_of_int (fst p - YearFromTime (lo + tz)))"
    by blast
  from t show "sorted_wrt (\<lambda>p q. fst p < fst q \<and> (\<exists>a b. snd p = Some a \<and> snd q = Some b \<and> a < b))
                 (ticks dr)"
    by (rule conjunct2[OF conjunct2])
next
  assume f: "domainFromData parse tz data padMonths = \<lparr>dom_min = Some lo', dom_max = Some hi'\<rparr>"
  note t = flat_tick_years[OF f, of lanes laneHeight laneGap pxPerMonth]
  show "map fst (ticks (SvgTimeline parse tz data lanes laneHeight laneGap pxPerMonth padMonths))
         = [YearFromTime (lo' + tz)..YearFromTime (hi' + tz)]"
    unfolding t by (simp add: comp_def)
  show "\<forall>p\<in>set (ticks (SvgTimeline parse tz data lanes laneHeight laneGap pxPerMonth padMonths)).
            snd p = js_add (x tz (Some lo') pxPerMonth (Date_fields tz (Some (fst p)) (Some 0) 1 0 0 0 0)) (Some 100)"
    unfolding t by auto
  assume g: "YearFromTime (hi' + tz) < 0 \<or> 99 < YearFromTime (lo' + tz)"
    "\<bar>lo'\<bar> + 12 * (31 * msPerDay) \<le> 8640000000000000"
    "\<bar>hi'\<bar> + 31 * msPerDay \<le> 8640000000000000"
    and n: "pxPerMonth = real_of_int n" "0 < n"
  show "\<forall>p\<in>set (ticks (SvgTimeline parse tz data lanes laneHeight laneGap pxPerMonth padMonths)).
                snd p = Some (real_of_int (n * (12 * fst p - monthIndex (lo' + tz)) + 100))"
    unfolding n(1) flat_ticks_whole[OF f g] by auto
  show "sorted_wrt (\<lambda>p q. fst p < fst q \<and> (\<exists>a b. snd p = Some a \<and> snd q = Some b \<and> a < b))
                 (ticks (SvgTimeline parse tz data lanes laneHeight laneGap pxPerMonth padMonths))"
    unfolding n(1) using f g n(2) by (rule flat_ticks_increase)
qed

theorem year_ticks_witness:
  "(\<exists>dr. SvgTimeline_rails parseDateOnly 0 DATA = Some dr \<and> map fst (ticks dr) = [2016..2025]
         \<and> sorted_wrt (\<lambda>p q. fst p < fst q \<and> (\<exists>a b. snd p = Some a \<and> snd q = Some b \<and> a < b))
              (ticks dr))
   \<and> map fst (ticks (SvgTimeline parseDateOnly 0 DATA_flat [''Work'', ''School'', ''Volunteering''] 64 12 20 1))
       = [2015..2026]
   \<and> sorted_wrt (\<lambda>p q. fst p < fst q \<and> (\<exists>a b. snd p = Some a \<and> snd q = Some b \<and> a < b))
       (ticks (SvgTimeline parseDateOnly 0 DATA_flat [''Work'', ''School'', ''Volunteering''] 64 12 20 1))"
proof -
  have "railsHeight DATA = Some (RULER_HEIGHT + LANE_HEIGHT * 2 + LANE_HEIGHT + LANE_HEIGHT * 2)"
    by (simp add: railsHeight_def DATA_def)
  then obtain dr where dr: "SvgTimeline_rails parseDateOnly 0 DATA = Some dr"
    using SvgTimeline_rails_Some by blast
  have d: "domainFromLanes parseDateOnly 0 DATA PAD_MONTHS
     = \<lparr>dom_min = Some 1451606400000, dom_max = Some 1767225599999\<rparr>"
    and d': "domainFromData parseDateOnly 0 DATA_flat 1
     = \<lparr>dom_min = Some 1448928000000, dom_max = Some 1769903999999\<rparr>"
    by code_simp+
  have y: "YearFromTime (1451606400000 + 0) = 2016" "YearFromTime (1767225599999 + 0) = 2025"
    "YearFromTime (1448928000000 + 0) = 2015" "YearFromTime (1769903999999 + 0) = 2026"
    by code_simp+
  have pl: "YearFromTime (1767225599999 + 0) < 0 \<or> 99 < YearFromTime (1451606400000 + 0)"
    and pl': "YearFromTime (1769903999999 + 0) < 0 \<or> 99 < YearFromTime (1448928000000 + 0)"
    unfolding y by simp_all
  have A: "\<bar>1448928000000\<bar> + 12 * (31 * msPerDay) \<le> 8640000000000000"
    and B: "\<bar>1769903999999\<bar> + 31 * msPerDay \<le> 8640000000000000"
    by (simp_all add: msPerDay_def)
  have n: "(20 :: real) = real_of_int 20" "(0 :: int) < 20" "(20 :: int) \<le> 1000000" by simp_all
  note tr = year_ticks[where parse = parseDateOnly and tz = 0 and ldata = DATA and dr = dr
        and lo = 1451606400000 and hi = 1767225599999]
  from tr dr d
  have "map fst (ticks dr) = [YearFromTime (1451606400000 + 0)..YearFromTime (1767225599999 + 0)]"
    by blast
  moreover from tr dr d DATA_plain pl
  have "sorted_wrt (\<lambda>p q. fst p < fst q \<and> (\<exists>a b. snd p = Some a \<and> snd q = Some b \<and> a < b)) (ticks dr)"
    by blast
  moreover note th = year_ticks[where parse = parseDateOnly and tz = 0 and data = DATA_flat and padMonths = 1
        and lo' = 1448928000000 and hi' = 1769903999999
        and lanes = "[''Work'', ''School'', ''Volunteering'']" and laneHeight = 64 and laneGap = 12
        and pxPerMonth = 20 and n = 20]
  moreover from th d' have "map fst (ticks (SvgTimeline parseDateOnly 0 DATA_flat [''Work'', ''School'', ''Volunteering''] 64 12 20 1))
      = [YearFromTime (1448928000000 + 0)..YearFromTime (1769903999999 + 0)]"
    by blast
  moreover from th d' pl' A B n
  have "sorted_wrt (\<lambda>p q. fst p < fst q \<and> (\<exists>a b. snd p = Some a \<and> snd q = Some b \<and> a < b))
       (ticks (SvgTimeline parseDateOnly 0 DATA_flat [''Work'', ''School'', ''Volunteering''] 64 12 20 1))"
    by blast
  ultimately show ?thesis using dr unfolding y by simp
qed

end
